theory Spec2Isabelle
  imports Complex_Main
begin

section \<open>Go's float64: IEEE 754 binary64, round to nearest, ties to even\<close>

text \<open>
  Every number of the library is a Go \<^verbatim>\<open>float64\<close>. A value is a finite number, one of
  the two infinities, or NaN. A finite value is carried as the real number it denotes; the
  result of every arithmetic operation is the exact real result rounded to the nearest
  binary64 number (53 significant bits, exponents from \<open>-1022\<close> to \<open>1023\<close>, gradual
  underflow with spacing \<open>2 powi -1074\<close>, overflow to an infinity), which is what
  IEEE 754 prescribes for \<^verbatim>\<open>+ - * /\<close> and \<^verbatim>\<open>math.Sqrt\<close>.

  Each operation is rounded on its own, as the compiler does on amd64 (no fused
  multiply-add).

  The two zeros of binary64 are identified: every comparison treats them as equal, and
  every division of the functions modelled below whose divisor can be zero is guarded by
  such a comparison. Where a zero divides, it is taken as \<open>+0\<close>.
\<close>

datatype float64 = Finite real | PInf | NInf | NaN

text \<open>
  The binade of a magnitude \<open>a\<close>: the exponent \<open>e\<close> with \<open>2 powi e \<le> a < 2 powi (e + 1)\<close>,
  found by bisection over the exponent range and never below \<open>-1022\<close>, the exponent
  shared by the smallest normal numbers and the subnormal ones.
\<close>

fun expo_search :: "nat \<Rightarrow> int \<Rightarrow> real \<Rightarrow> int" where
  "expo_search 0 lo a = lo"
| "expo_search (Suc k) lo a =
     (if 2 powi (lo + 2 ^ k) \<le> a then expo_search k (lo + 2 ^ k) a
      else expo_search k lo a)"

definition binade :: "real \<Rightarrow> int" where
  "binade a = expo_search 11 (- 1022) a"

text \<open>Rounding a real to the nearest integer, a tie going to the even neighbour.\<close>

definition rne :: "real \<Rightarrow> int" where
  "rne x = (let f = \<lfloor>x\<rfloor>; d = x - of_int f
            in if d < 1 / 2 then f else if 1 / 2 < d then f + 1
               else if even f then f else f + 1)"

text \<open>
  Rounding a real to binary64: the nearest multiple of the spacing of its binade, an
  infinity once that multiple reaches \<open>2 ^ 1024\<close>.
\<close>

definition rnd :: "real \<Rightarrow> float64" where
  "rnd r = (let q = 2 powi (binade \<bar>r\<bar> - 52); v = of_int (rne (r / q)) * q
            in if 2 ^ 1024 \<le> \<bar>v\<bar> then (if 0 < r then PInf else NInf) else Finite v)"

fun f64_neg :: "float64 \<Rightarrow> float64" where
  "f64_neg (Finite x) = Finite (- x)"
| "f64_neg PInf = NInf"
| "f64_neg NInf = PInf"
| "f64_neg NaN = NaN"

fun f64_abs :: "float64 \<Rightarrow> float64" where
  "f64_abs (Finite x) = Finite \<bar>x\<bar>"
| "f64_abs PInf = PInf"
| "f64_abs NInf = PInf"
| "f64_abs NaN = NaN"

fun f64_add :: "float64 \<Rightarrow> float64 \<Rightarrow> float64" where
  "f64_add (Finite x) (Finite y) = rnd (x + y)"
| "f64_add NaN b = NaN"
| "f64_add a NaN = NaN"
| "f64_add PInf NInf = NaN"
| "f64_add NInf PInf = NaN"
| "f64_add PInf b = PInf"
| "f64_add a PInf = PInf"
| "f64_add NInf b = NInf"
| "f64_add a NInf = NInf"

definition f64_sub :: "float64 \<Rightarrow> float64 \<Rightarrow> float64" where
  "f64_sub a b = f64_add a (f64_neg b)"

fun f64_mul :: "float64 \<Rightarrow> float64 \<Rightarrow> float64" where
  "f64_mul (Finite x) (Finite y) = rnd (x * y)"
| "f64_mul NaN b = NaN"
| "f64_mul a NaN = NaN"
| "f64_mul (Finite x) PInf = (if x = 0 then NaN else if 0 < x then PInf else NInf)"
| "f64_mul (Finite x) NInf = (if x = 0 then NaN else if 0 < x then NInf else PInf)"
| "f64_mul PInf (Finite y) = (if y = 0 then NaN else if 0 < y then PInf else NInf)"
| "f64_mul NInf (Finite y) = (if y = 0 then NaN else if 0 < y then NInf else PInf)"
| "f64_mul PInf PInf = PInf"
| "f64_mul PInf NInf = NInf"
| "f64_mul NInf PInf = NInf"
| "f64_mul NInf NInf = PInf"

fun f64_div :: "float64 \<Rightarrow> float64 \<Rightarrow> float64" where
  "f64_div (Finite x) (Finite y) =
     (if y = 0 then (if x = 0 then NaN else if 0 < x then PInf else NInf)
      else rnd (x / y))"
| "f64_div NaN b = NaN"
| "f64_div a NaN = NaN"
| "f64_div (Finite x) PInf = Finite 0"
| "f64_div (Finite x) NInf = Finite 0"
| "f64_div PInf (Finite y) = (if 0 \<le> y then PInf else NInf)"
| "f64_div NInf (Finite y) = (if 0 \<le> y then NInf else PInf)"
| "f64_div PInf PInf = NaN"
| "f64_div PInf NInf = NaN"
| "f64_div NInf PInf = NaN"
| "f64_div NInf NInf = NaN"

text \<open>\<^verbatim>\<open>math.Sqrt\<close>: correctly rounded; NaN below zero.\<close>

fun f64_sqrt :: "float64 \<Rightarrow> float64" where
  "f64_sqrt (Finite x) = (if x < 0 then NaN else rnd (sqrt x))"
| "f64_sqrt PInf = PInf"
| "f64_sqrt NInf = NaN"
| "f64_sqrt NaN = NaN"

text \<open>
  \<^verbatim>\<open>math.Mod(x, y)\<close>: the remainder of the division truncated toward zero, with the sign
  of \<open>x\<close>. It is exact (no rounding). NaN when \<open>x\<close> is infinite or \<open>y\<close> is zero;
  \<open>x\<close> itself when \<open>y\<close> is infinite.
\<close>

definition trunc_quot :: "real \<Rightarrow> real \<Rightarrow> int" where
  "trunc_quot x y = (if 0 \<le> x / y then \<lfloor>x / y\<rfloor> else \<lceil>x / y\<rceil>)"

fun f64_mod :: "float64 \<Rightarrow> float64 \<Rightarrow> float64" where
  "f64_mod (Finite x) (Finite y) =
     (if y = 0 then NaN else Finite (x - y * of_int (trunc_quot x y)))"
| "f64_mod NaN b = NaN"
| "f64_mod a NaN = NaN"
| "f64_mod PInf b = NaN"
| "f64_mod NInf b = NaN"
| "f64_mod (Finite x) PInf = Finite x"
| "f64_mod (Finite x) NInf = Finite x"

text \<open>The comparisons \<^verbatim>\<open>==\<close>, \<^verbatim>\<open><\<close> and \<^verbatim>\<open><=\<close>: false as soon as an operand is NaN.\<close>

fun f64_eq :: "float64 \<Rightarrow> float64 \<Rightarrow> bool" where
  "f64_eq (Finite x) (Finite y) = (x = y)"
| "f64_eq PInf PInf = True"
| "f64_eq NInf NInf = True"
| "f64_eq a b = False"

fun f64_lt :: "float64 \<Rightarrow> float64 \<Rightarrow> bool" where
  "f64_lt (Finite x) (Finite y) = (x < y)"
| "f64_lt NaN b = False"
| "f64_lt a NaN = False"
| "f64_lt a NInf = False"
| "f64_lt PInf b = False"
| "f64_lt NInf b = True"
| "f64_lt a PInf = True"

fun f64_le :: "float64 \<Rightarrow> float64 \<Rightarrow> bool" where
  "f64_le (Finite x) (Finite y) = (x \<le> y)"
| "f64_le NaN b = False"
| "f64_le a NaN = False"
| "f64_le NInf b = True"
| "f64_le a PInf = True"
| "f64_le a NInf = False"
| "f64_le PInf b = False"

text \<open>\<^verbatim>\<open>a > b\<close>, \<^verbatim>\<open>a >= b\<close> and \<^verbatim>\<open>a != b\<close> (the last one true on NaN).\<close>

definition f64_gt :: "float64 \<Rightarrow> float64 \<Rightarrow> bool" where
  "f64_gt a b = f64_lt b a"

definition f64_ge :: "float64 \<Rightarrow> float64 \<Rightarrow> bool" where
  "f64_ge a b = f64_le b a"

definition f64_ne :: "float64 \<Rightarrow> float64 \<Rightarrow> bool" where
  "f64_ne a b = (\<not> f64_eq a b)"

text \<open>
  A Go constant used as a \<^verbatim>\<open>float64\<close> is its exact decimal value rounded to
  binary64.
\<close>

definition f64_const :: "real \<Rightarrow> float64" where
  "f64_const r = rnd r"

fun is_finite :: "float64 \<Rightarrow> bool" where
  "is_finite (Finite x) = True"
| "is_finite a = False"

text \<open>
  The accuracy of a rounding: \<open>near r v\<close> says that \<open>v\<close> is within half a unit in the
  last place of \<open>r\<close>, that is within \<open>u53 * \<bar>r\<bar>\<close> when \<open>r\<close> is in the range of the
  normal numbers (at least \<open>mnorm\<close> in magnitude) and within \<open>u53 * mnorm\<close>, half the
  spacing of the subnormal numbers, below it.
\<close>

definition u53 :: real where
  "u53 = 1 / 2 ^ 53"

definition mnorm :: real where
  "mnorm = 2 powi (- 1022)"

definition near :: "real \<Rightarrow> real \<Rightarrow> bool" where
  "near r v = (\<bar>v - r\<bar> \<le> u53 * max \<bar>r\<bar> mnorm)"


section \<open>Scalar helpers (mathgd.go)\<close>

text \<open>
  The packages \<^verbatim>\<open>vector2\<close>, \<^verbatim>\<open>transform2d\<close>, \<^verbatim>\<open>quaternion\<close> and \<^verbatim>\<open>geometry2d\<close> call
  these helpers through the module's root package; \<^verbatim>\<open>mathgd.go\<close> holds the module's
  text of the same names.
\<close>

definition CMP_EPSILON :: float64 where
  "CMP_EPSILON = f64_const (1 / 100000)"

definition TAU :: float64 where
  "TAU = f64_const 6.2831853071795864769252867666"

definition PI :: float64 where
  "PI = f64_const 3.1415926535897932384626433833"

definition IsZeroApprox :: "float64 \<Rightarrow> bool" where
  "IsZeroApprox x = f64_lt (f64_abs x) CMP_EPSILON"

definition IsEqualApprox :: "float64 \<Rightarrow> float64 \<Rightarrow> bool" where
  "IsEqualApprox x y = IsZeroApprox (f64_sub x y)"

definition Clampf :: "float64 \<Rightarrow> float64 \<Rightarrow> float64 \<Rightarrow> float64" where
  "Clampf val lo hi =
     (if f64_lt val lo then lo else if f64_gt val hi then hi else val)"

definition AngleDifference :: "float64 \<Rightarrow> float64 \<Rightarrow> float64" where
  "AngleDifference p_from p_to =
     (let difference = f64_mod (f64_sub p_to p_from) TAU
      in f64_sub (f64_mod (f64_mul (Finite 2) difference) TAU) difference)"

definition RotateToward :: "float64 \<Rightarrow> float64 \<Rightarrow> float64 \<Rightarrow> float64" where
  "RotateToward p_from p_to p_delta =
     (let difference = AngleDifference p_from p_to;
          abs_difference = f64_abs difference;
          r = f64_add p_from (Clampf p_delta (f64_sub abs_difference PI) abs_difference)
      in if f64_ge difference (Finite 0) then f64_mul r (Finite 1)
         else Finite (- 1))"

section \<open>Panics and errors\<close>

text \<open>
  A call that can abort returns \<open>Inl\<close> of the panic; a Go \<^verbatim>\<open>error\<close> result is an
  \<open>error option\<close>, \<^verbatim>\<open>nil\<close> being \<open>None\<close>.
\<close>

datatype go_panic = Panic string

datatype error = Error string

section \<open>Vector2 (package vector2)\<close>

text \<open>
  The fields \<^verbatim>\<open>X\<close>, \<^verbatim>\<open>Y\<close> carry the suffix \<open>2\<close> here, those of \<^verbatim>\<open>Vector3\<close> the suffix
  \<open>3\<close>. A method with a value receiver works on its own copy of the vector and returns it.
\<close>

record Vector2 =
  X2 :: float64
  Y2 :: float64

definition Vector2_New :: "float64 \<Rightarrow> float64 \<Rightarrow> Vector2" where
  "Vector2_New x y = \<lparr>X2 = x, Y2 = y\<rparr>"

definition Vector2_Zero :: Vector2 where
  "Vector2_Zero = Vector2_New (Finite 0) (Finite 0)"

definition Vector2_Add :: "Vector2 \<Rightarrow> Vector2 \<Rightarrow> Vector2" where
  "Vector2_Add v b = \<lparr>X2 = f64_add (X2 v) (X2 b), Y2 = f64_add (Y2 v) (Y2 b)\<rparr>"

definition Vector2_Sub :: "Vector2 \<Rightarrow> Vector2 \<Rightarrow> Vector2" where
  "Vector2_Sub v b = \<lparr>X2 = f64_sub (X2 v) (X2 b), Y2 = f64_sub (Y2 v) (Y2 b)\<rparr>"

definition Vector2_Mulf :: "Vector2 \<Rightarrow> float64 \<Rightarrow> Vector2" where
  "Vector2_Mulf v s = \<lparr>X2 = f64_mul (X2 v) s, Y2 = f64_mul (Y2 v) s\<rparr>"

definition Vector2_Div :: "Vector2 \<Rightarrow> Vector2 \<Rightarrow> Vector2" where
  "Vector2_Div v b =
     (let v1 = (if f64_eq (X2 b) (Finite 0) then v\<lparr>X2 := PInf\<rparr>
                else v\<lparr>X2 := f64_div (X2 v) (X2 b)\<rparr>);
          v2 = (if f64_eq (Y2 b) (Finite 0) then v1\<lparr>Y2 := PInf\<rparr>
                else v1\<lparr>Y2 := f64_div (Y2 v1) (Y2 b)\<rparr>)
      in v2)"

definition Vector2_Divf :: "Vector2 \<Rightarrow> float64 \<Rightarrow> Vector2" where
  "Vector2_Divf v s =
     (if f64_eq s (Finite 0) then v\<lparr>X2 := PInf, Y2 := PInf\<rparr>
      else v\<lparr>X2 := f64_div (X2 v) s, Y2 := f64_div (Y2 v) s\<rparr>)"

definition Vector2_Dot :: "Vector2 \<Rightarrow> Vector2 \<Rightarrow> float64" where
  "Vector2_Dot v b = f64_add (f64_mul (X2 v) (X2 b)) (f64_mul (Y2 v) (Y2 b))"

definition Vector2_LengthSquared :: "Vector2 \<Rightarrow> float64" where
  "Vector2_LengthSquared v = f64_add (f64_mul (X2 v) (X2 v)) (f64_mul (Y2 v) (Y2 v))"

definition Vector2_Length :: "Vector2 \<Rightarrow> float64" where
  "Vector2_Length v = f64_sqrt (f64_add (f64_mul (X2 v) (X2 v)) (f64_mul (Y2 v) (Y2 v)))"

text \<open>\<^verbatim>\<open>Normalize\<close> has a pointer receiver: it updates the vector, returned here.\<close>

definition Vector2_Normalize :: "Vector2 \<Rightarrow> Vector2" where
  "Vector2_Normalize v =
     (let l = f64_add (f64_mul (X2 v) (X2 v)) (f64_mul (Y2 v) (Y2 v))
      in if f64_ne l (Finite 0)
         then (let l' = f64_sqrt l;
                   v1 = v\<lparr>X2 := f64_div (X2 v) l'\<rparr>
               in v1\<lparr>Y2 := f64_div (Y2 v1) l'\<rparr>)
         else v)"

definition Vector2_Normalized :: "Vector2 \<Rightarrow> Vector2" where
  "Vector2_Normalized v = Vector2_Normalize v"

definition Vector2_IsNormalized :: "Vector2 \<Rightarrow> bool" where
  "Vector2_IsNormalized v = IsEqualApprox (Vector2_LengthSquared v) (Finite 1)"

definition Vector2_Slide :: "Vector2 \<Rightarrow> Vector2 \<Rightarrow> go_panic + Vector2" where
  "Vector2_Slide v normal =
     (if \<not> Vector2_IsNormalized normal
      then Inl (Panic ''normal:Vector2 must be normalized before function:Vector2.Slide'')
      else Inr (Vector2_Sub v (Vector2_Mulf normal (Vector2_Dot v normal))))"

definition Vector2_Reflect :: "Vector2 \<Rightarrow> Vector2 \<Rightarrow> go_panic + Vector2" where
  "Vector2_Reflect v normal =
     (if \<not> Vector2_IsNormalized normal
      then Inl (Panic ''normal:Vector2 must be normalized before function:Vector2.Slide'')
      else Inr (Vector2_Sub
                  (Vector2_Mulf (Vector2_Mulf normal (Finite 2)) (Vector2_Dot v normal)) v))"

section \<open>Vector3 (vector3.go)\<close>

record Vector3 =
  X3 :: float64
  Y3 :: float64
  Z3 :: float64

definition NewVector3 :: "float64 \<Rightarrow> float64 \<Rightarrow> float64 \<Rightarrow> Vector3" where
  "NewVector3 x y z = \<lparr>X3 = x, Y3 = y, Z3 = z\<rparr>"

definition Vector3_set :: "Vector3 \<Rightarrow> float64 \<Rightarrow> float64 \<Rightarrow> float64 \<Rightarrow> Vector3" where
  "Vector3_set v x y z = v\<lparr>X3 := x, Y3 := y, Z3 := z\<rparr>"

definition Vector3_Sub :: "Vector3 \<Rightarrow> Vector3 \<Rightarrow> Vector3" where
  "Vector3_Sub v w =
     Vector3_set v (f64_sub (X3 v) (X3 w)) (f64_sub (Y3 v) (Y3 w)) (f64_sub (Z3 v) (Z3 w))"

definition Vector3_Mulf :: "Vector3 \<Rightarrow> float64 \<Rightarrow> Vector3" where
  "Vector3_Mulf v w = Vector3_set v (f64_mul (X3 v) w) (f64_mul (Y3 v) w) (f64_mul (Z3 v) w)"

definition Vector3_Div :: "Vector3 \<Rightarrow> Vector3 \<Rightarrow> Vector3" where
  "Vector3_Div v w =
     (let v1 = (if f64_eq (X3 w) (Finite 0) then v\<lparr>X3 := PInf\<rparr>
                else v\<lparr>X3 := f64_div (X3 v) (X3 w)\<rparr>);
          v2 = (if f64_eq (Y3 w) (Finite 0) then v1\<lparr>Y3 := PInf\<rparr>
                else v1\<lparr>Y3 := f64_div (Y3 v1) (Y3 w)\<rparr>);
          v3 = (if f64_eq (Z3 w) (Finite 0) then v2\<lparr>Z3 := PInf\<rparr>
                else v2\<lparr>Z3 := f64_div (Z3 v2) (Z3 w)\<rparr>)
      in v3)"

definition Vector3_Divf :: "Vector3 \<Rightarrow> float64 \<Rightarrow> Vector3" where
  "Vector3_Divf v w =
     (if f64_eq w (Finite 0) then Vector3_set v PInf PInf PInf
      else Vector3_set v (f64_div (X3 v) w) (f64_div (Y3 v) w) (f64_div (Z3 v) w))"

definition Vector3_Dot :: "Vector3 \<Rightarrow> Vector3 \<Rightarrow> float64" where
  "Vector3_Dot v w =
     f64_add (f64_add (f64_mul (X3 v) (X3 w)) (f64_mul (Y3 v) (Y3 w))) (f64_mul (Z3 v) (Z3 w))"

definition Vector3_Length :: "Vector3 \<Rightarrow> float64" where
  "Vector3_Length v =
     (let x2 = f64_mul (X3 v) (X3 v); y2 = f64_mul (Y3 v) (Y3 v); z2 = f64_mul (Z3 v) (Z3 v)
      in f64_sqrt (f64_add (f64_add x2 y2) z2))"

definition Vector3_LengthSquared :: "Vector3 \<Rightarrow> float64" where
  "Vector3_LengthSquared v =
     (let x2 = f64_mul (X3 v) (X3 v); y2 = f64_mul (Y3 v) (Y3 v); z2 = f64_mul (Z3 v) (Z3 v)
      in f64_add (f64_add x2 y2) z2)"

definition Vector3_Normalize :: "Vector3 \<Rightarrow> Vector3" where
  "Vector3_Normalize v =
     (let lengthsq = Vector3_LengthSquared v
      in if f64_eq lengthsq (Finite 0) then Vector3_set v (Finite 0) (Finite 0) (Finite 0)
         else (let length' = f64_sqrt lengthsq;
                   v1 = v\<lparr>X3 := f64_div (X3 v) length'\<rparr>;
                   v2 = v1\<lparr>Y3 := f64_div (Y3 v1) length'\<rparr>
               in v2\<lparr>Z3 := f64_div (Z3 v2) length'\<rparr>))"

definition Vector3_Normalized :: "Vector3 \<Rightarrow> Vector3" where
  "Vector3_Normalized v = Vector3_Normalize v"

definition Vector3_IsNormalized :: "Vector3 \<Rightarrow> bool" where
  "Vector3_IsNormalized v = IsEqualApprox (Vector3_LengthSquared v) (Finite 1)"

text \<open>
  \<^verbatim>\<open>Slide\<close> and \<^verbatim>\<open>Reflect\<close> of \<^verbatim>\<open>Vector3\<close> have no \<^verbatim>\<open>panic\<close> statement; they carry the
  result type of their \<^verbatim>\<open>Vector2\<close> namesakes so that the two can be compared.
\<close>

definition Vector3_Slide :: "Vector3 \<Rightarrow> Vector3 \<Rightarrow> go_panic + Vector3" where
  "Vector3_Slide v normal =
     (if \<not> Vector3_IsNormalized normal then Inr v
      else Inr (Vector3_Sub v (Vector3_Mulf normal (Vector3_Dot v normal))))"

definition Vector3_Reflect :: "Vector3 \<Rightarrow> Vector3 \<Rightarrow> go_panic + Vector3" where
  "Vector3_Reflect v normal =
     (if \<not> Vector3_IsNormalized normal then Inr v
      else Inr (Vector3_Sub
                  (Vector3_Mulf (Vector3_Mulf normal (Vector3_Dot v normal)) (Finite 2)) v))"


section \<open>Basis (basis.go)\<close>

text \<open>
  A Go array \<^verbatim>\<open>[3]T\<close>. The code reads and writes it at the literal indices 0, 1 and 2
  only.
\<close>

datatype 'a array3 = Array3 'a 'a 'a

fun at3 :: "'a array3 \<Rightarrow> nat \<Rightarrow> 'a" where
  "at3 (Array3 a b c) i = (if i = 0 then a else if i = 1 then b else c)"

fun upd3 :: "'a array3 \<Rightarrow> nat \<Rightarrow> 'a \<Rightarrow> 'a array3" where
  "upd3 (Array3 a b c) i v =
     (if i = 0 then Array3 v b c else if i = 1 then Array3 a v c else Array3 a b v)"

record Basis =
  Rows :: "float64 array3 array3"

definition Basis_New :: Basis where
  "Basis_New =
     \<lparr>Rows = Array3 (Array3 (Finite 1) (Finite 0) (Finite 0))
                     (Array3 (Finite 0) (Finite 1) (Finite 0))
                     (Array3 (Finite 0) (Finite 0) (Finite 1))\<rparr>"

definition Dot3 :: "float64 array3 \<Rightarrow> float64 array3 \<Rightarrow> float64" where
  "Dot3 a b =
     f64_add (f64_add (f64_mul (at3 a 0) (at3 b 0)) (f64_mul (at3 a 1) (at3 b 1)))
             (f64_mul (at3 a 2) (at3 b 2))"

definition Basis_Xform :: "Basis \<Rightarrow> float64 array3 \<Rightarrow> float64 array3" where
  "Basis_Xform b pVector =
     Array3 (Dot3 (at3 (Rows b) 0) pVector)
            (Dot3 (at3 (Rows b) 1) pVector)
            (Dot3 (at3 (Rows b) 2) pVector)"

definition rc :: "Basis \<Rightarrow> nat \<Rightarrow> nat \<Rightarrow> float64" where
  "rc b i j = at3 (at3 (Rows b) i) j"

definition Basis_Determinant :: "Basis \<Rightarrow> float64" where
  "Basis_Determinant b =
     f64_add
       (f64_sub
          (f64_mul (rc b 0 0) (f64_sub (f64_mul (rc b 1 1) (rc b 2 2)) (f64_mul (rc b 2 1) (rc b 1 2))))
          (f64_mul (rc b 1 0) (f64_sub (f64_mul (rc b 0 1) (rc b 2 2)) (f64_mul (rc b 2 1) (rc b 0 2)))))
       (f64_mul (rc b 2 0) (f64_sub (f64_mul (rc b 0 1) (rc b 1 2)) (f64_mul (rc b 1 1) (rc b 0 2))))"

definition cofac :: "float64 array3 array3 \<Rightarrow> nat \<Rightarrow> nat \<Rightarrow> nat \<Rightarrow> nat \<Rightarrow> float64" where
  "cofac rows row1 col1 row2 col2 =
     f64_sub (f64_mul (at3 (at3 rows row1) col1) (at3 (at3 rows row2) col2))
             (f64_mul (at3 (at3 rows row1) col2) (at3 (at3 rows row2) col1))"

text \<open>The three cofactors \<^verbatim>\<open>co\<close> and the determinant \<^verbatim>\<open>det\<close> that \<^verbatim>\<open>Invert\<close> computes first.\<close>

definition Invert_co :: "Basis \<Rightarrow> float64 array3" where
  "Invert_co b =
     Array3 (cofac (Rows b) 1 1 2 2) (cofac (Rows b) 1 2 2 0) (cofac (Rows b) 1 0 2 1)"

definition Invert_det :: "Basis \<Rightarrow> float64" where
  "Invert_det b =
     (let co = Invert_co b
      in f64_add
           (f64_add (f64_mul (rc b 0 0) (at3 co 0)) (f64_mul (rc b 0 1) (at3 co 1)))
           (f64_mul (rc b 0 2) (at3 co 2)))"

text \<open>
  \<^verbatim>\<open>Invert\<close> has a pointer receiver and returns an \<^verbatim>\<open>error\<close>: the model returns the
  receiver after the call and the error. The three rows are assigned by three statements,
  one after the other; each right-hand side reads \<^verbatim>\<open>b.Rows\<close> as the statements before it
  have left it.
\<close>

definition Basis_Invert :: "Basis \<Rightarrow> Basis \<times> error option" where
  "Basis_Invert b =
     (let co = Invert_co b;
          det = Invert_det b
      in if f64_eq det (Finite 0)
         then (b, Some (Error ''matrix is not invertible, determinant is zero''))
         else
           (let s = f64_div (Finite 1) det;
                b1 = b\<lparr>Rows := upd3 (Rows b) 0
                        (Array3 (f64_mul (at3 co 0) s)
                                (f64_mul (cofac (Rows b) 0 2 2 1) s)
                                (f64_mul (cofac (Rows b) 0 1 1 2) s))\<rparr>;
                b2 = b1\<lparr>Rows := upd3 (Rows b1) 1
                        (Array3 (f64_mul (at3 co 1) s)
                                (f64_mul (cofac (Rows b1) 0 0 2 2) s)
                                (f64_mul (cofac (Rows b1) 0 2 1 0) s))\<rparr>;
                b3 = b2\<lparr>Rows := upd3 (Rows b2) 2
                        (Array3 (f64_mul (at3 co 2) s)
                                (f64_mul (cofac (Rows b2) 0 1 2 0) s)
                                (f64_mul (cofac (Rows b2) 0 0 1 1) s))\<rparr>
            in (b3, None)))"

section \<open>Transform2D (package transform2d)\<close>

record Transform2D =
  Columns :: "Vector2 array3"

text \<open>The zero value \<^verbatim>\<open>Transform2D{}\<close>: every cell is 0.\<close>

definition Transform2D_zero :: Transform2D where
  "Transform2D_zero =
     \<lparr>Columns = Array3 \<lparr>X2 = Finite 0, Y2 = Finite 0\<rparr> \<lparr>X2 = Finite 0, Y2 = Finite 0\<rparr>
                       \<lparr>X2 = Finite 0, Y2 = Finite 0\<rparr>\<rparr>"

definition col :: "Transform2D \<Rightarrow> nat \<Rightarrow> Vector2" where
  "col t i = at3 (Columns t) i"

definition tdotx :: "Transform2D \<Rightarrow> Vector2 \<Rightarrow> float64" where
  "tdotx t v = f64_add (f64_mul (X2 (col t 0)) (X2 v)) (f64_mul (X2 (col t 1)) (Y2 v))"

definition tdoty :: "Transform2D \<Rightarrow> Vector2 \<Rightarrow> float64" where
  "tdoty t v = f64_add (f64_mul (Y2 (col t 0)) (X2 v)) (f64_mul (Y2 (col t 1)) (Y2 v))"

definition determinant :: "Transform2D \<Rightarrow> float64" where
  "determinant t =
     f64_sub (f64_mul (X2 (col t 0)) (Y2 (col t 1))) (f64_mul (X2 (col t 1)) (Y2 (col t 0)))"

definition Transform2D_Inverse :: "Transform2D \<Rightarrow> Transform2D" where
  "Transform2D_Inverse t =
     (if f64_eq (determinant t) (Finite 0) then Transform2D_zero
      else \<lparr>Columns = Array3
              (Vector2_New (X2 (col t 0)) (X2 (col t 1)))
              (Vector2_New (Y2 (col t 0)) (Y2 (col t 1)))
              (Vector2_New (f64_neg (tdotx t (col t 2))) (f64_neg (tdoty t (col t 2))))\<rparr>)"

definition Transform2D_AffineInverse :: "Transform2D \<Rightarrow> Transform2D" where
  "Transform2D_AffineInverse t =
     (let det = determinant t
      in if f64_eq det (Finite 0) then Transform2D_zero
         else
           (let idet = f64_div (Finite 1) det
            in \<lparr>Columns = Array3
                  (Vector2_New (f64_mul (Y2 (col t 1)) idet) (f64_mul (f64_neg (Y2 (col t 0))) idet))
                  (Vector2_New (f64_mul (f64_neg (X2 (col t 1))) idet) (f64_mul (X2 (col t 0)) idet))
                  (Vector2_New (f64_mul (f64_neg (tdotx t (col t 2))) idet)
                               (f64_mul (f64_neg (tdoty t (col t 2))) idet))\<rparr>))"

definition Transform2D_Xform :: "Transform2D \<Rightarrow> Vector2 \<Rightarrow> Vector2" where
  "Transform2D_Xform t vec = Vector2_Add (Vector2_New (tdotx t vec) (tdoty t vec)) (col t 2)"

section \<open>Quaternion (package quaternion)\<close>

record Quaternion =
  QX :: float64
  QY :: float64
  QZ :: float64
  QW :: float64

definition Quaternion_New :: "float64 \<Rightarrow> float64 \<Rightarrow> float64 \<Rightarrow> float64 \<Rightarrow> Quaternion" where
  "Quaternion_New p_x p_y p_z p_w = \<lparr>QX = p_x, QY = p_y, QZ = p_z, QW = p_w\<rparr>"

definition IDENTITY :: Quaternion where
  "IDENTITY = Quaternion_New (Finite 0) (Finite 0) (Finite 0) (Finite 1)"

text \<open>
  \<^verbatim>\<open>Rotated\<close> takes a \<^verbatim>\<open>vector3.Vector3\<close>; the repository's text of that type and of its
  \<^verbatim>\<open>IsNormalized\<close> is \<^verbatim>\<open>vector3.go\<close>, modelled above.
\<close>

definition Rotated :: "Vector3 \<Rightarrow> float64 \<Rightarrow> Quaternion" where
  "Rotated axisNormal angle =
     (if \<not> Vector3_IsNormalized axisNormal then IDENTITY
      else Quaternion_New (X3 axisNormal) (Y3 axisNormal) (Z3 axisNormal) angle)"

section \<open>geometry2d\<close>

definition GetClosestPointToSegment :: "Vector2 \<Rightarrow> Vector2 \<times> Vector2 \<Rightarrow> Vector2" where
  "GetClosestPointToSegment point segment =
     (let p = Vector2_Sub point (fst segment);
          n = Vector2_Sub (snd segment) (fst segment);
          l2 = Vector2_LengthSquared n
      in if f64_lt l2 (f64_const (1 / 10 ^ 20)) then fst segment
         else
           (let d = f64_div (Vector2_Dot n p) l2
            in if f64_le d (Finite 0) then fst segment
               else if f64_ge d (Finite 1) then snd segment
               else Vector2_Add (fst segment) (Vector2_Mulf n d)))"

text \<open>
  The polygon is a slice of pointers: an element is \<open>None\<close> for \<^verbatim>\<open>nil\<close>, and reading a
  field through it panics. The loop of \<^verbatim>\<open>IsPolygonClockwise\<close> runs \<open>i\<close> from 0 to
  \<open>c - 1\<close> and adds one term to \<^verbatim>\<open>sum\<close> (here \<open>sumv\<close>) per round.
\<close>

function IsPolygonClockwise_loop ::
  "Vector2 option list \<Rightarrow> nat \<Rightarrow> nat \<Rightarrow> float64 \<Rightarrow> go_panic + float64" where
  "IsPolygonClockwise_loop polygon c i sumv =
     (if i < c then
        (case (polygon ! i, polygon ! ((i + 1) mod c)) of
           (Some v1, Some v2) \<Rightarrow>
             IsPolygonClockwise_loop polygon c (i + 1)
               (f64_add sumv (f64_mul (f64_sub (X2 v2) (X2 v1)) (f64_add (Y2 v2) (Y2 v1))))
         | _ \<Rightarrow> Inl (Panic ''runtime error: invalid memory address or nil pointer dereference''))
      else Inr sumv)"
  by pat_completeness auto
termination
  by (relation "measure (\<lambda>(polygon, c, i, sumv). c - i)") auto

definition IsPolygonClockwise :: "Vector2 option list \<Rightarrow> go_panic + bool" where
  "IsPolygonClockwise polygon =
     (let c = length polygon
      in if c < 3 then Inr False
         else (case IsPolygonClockwise_loop polygon c 0 (Finite 0) of
                 Inl e \<Rightarrow> Inl e
               | Inr sumv \<Rightarrow> Inr (f64_gt sumv (Finite 0))))"


section \<open>Values used in the examples\<close>

definition singular_t :: Transform2D where
  "singular_t = \<lparr>Columns = Array3 \<lparr>X2 = Finite 1, Y2 = Finite 2\<rparr> \<lparr>X2 = Finite 2, Y2 = Finite 4\<rparr>
                                  \<lparr>X2 = Finite 3, Y2 = Finite 1\<rparr>\<rparr>"

text \<open>A scaling by (2, 4) and a quarter turn, each with an origin that is not zero.\<close>

definition scaled_t :: Transform2D where
  "scaled_t = \<lparr>Columns = Array3 \<lparr>X2 = Finite 2, Y2 = Finite 0\<rparr> \<lparr>X2 = Finite 0, Y2 = Finite 4\<rparr>
                                 \<lparr>X2 = Finite 1, Y2 = Finite 1\<rparr>\<rparr>"

definition quarter_turn_t :: Transform2D where
  "quarter_turn_t =
     \<lparr>Columns = Array3 \<lparr>X2 = Finite 0, Y2 = Finite 1\<rparr> \<lparr>X2 = Finite (- 1), Y2 = Finite 0\<rparr>
                       \<lparr>X2 = Finite 1, Y2 = Finite 0\<rparr>\<rparr>"

definition diag211 :: Basis where
  "diag211 = \<lparr>Rows = Array3 (Array3 (Finite 2) (Finite 0) (Finite 0))
                             (Array3 (Finite 0) (Finite 1) (Finite 0))
                             (Array3 (Finite 0) (Finite 0) (Finite 1))\<rparr>"



section \<open>Evaluating the rounding\<close>

lemma expo_search_numeral [simp]:
  "expo_search (numeral n) lo a =
     (if 2 powi (lo + 2 ^ pred_numeral n) \<le> a
      then expo_search (pred_numeral n) (lo + 2 ^ pred_numeral n) a
      else expo_search (pred_numeral n) lo a)"
  by (simp add: numeral_eq_Suc)

lemmas rnd_eval = rnd_def binade_def rne_def Let_def

lemma rnd_0 [simp]: "rnd 0 = Finite 0"
  by (simp add: rnd_eval)

lemma rnd_1 [simp]: "rnd 1 = Finite 1"
  by (simp add: rnd_eval)

lemma rnd_3 [simp]: "rnd 3 = Finite 3"
  by (simp add: rnd_eval)

lemma rnd_4 [simp]: "rnd 4 = Finite 4"
  by (simp add: rnd_eval)

lemma rnd_2 [simp]: "rnd 2 = Finite 2"
  by (simp add: rnd_eval)

lemma rnd_8 [simp]: "rnd 8 = Finite 8"
  by (simp add: rnd_eval)

lemma rnd_half [simp]: "rnd (1 / 2) = Finite (1 / 2)"
  by (simp add: rnd_eval)

lemma rnd_quarter [simp]: "rnd (1 / 4) = Finite (1 / 4)"
  by (simp add: rnd_eval)

lemma rnd_eighth [simp]: "rnd (1 / 8) = Finite (1 / 8)"
  by (simp add: rnd_eval)

lemma rnd_sixteenth [simp]: "rnd (1 / 16) = Finite (1 / 16)"
  by (simp add: rnd_eval)

text \<open>The constants, as the binary64 numbers the compiler rounds them to.\<close>

lemma CMP_EPSILON_value: "CMP_EPSILON = Finite (5902958103587057 / 2 ^ 69)"
  by (simp add: CMP_EPSILON_def f64_const_def rnd_eval)

lemma TAU_value: "TAU = Finite (7074237752028440 / 2 ^ 50)"
  by (simp add: TAU_def f64_const_def rnd_eval)

lemma PI_value: "PI = Finite (7074237752028440 / 2 ^ 51)"
  by (simp add: PI_def f64_const_def rnd_eval)

lemma tiny_value: "f64_const (1 / 10 ^ 20) = Finite (6646139978924579 / 2 ^ 119)"
  by (simp add: f64_const_def rnd_eval)

lemma tiny_value_numeral:
  "f64_const (1 / 100000000000000000000) = Finite (6646139978924579 / 2 ^ 119)"
  using tiny_value by simp

section \<open>The accuracy of the rounding\<close>

lemma rne_error: "\<bar>of_int (rne x) - x\<bar> \<le> 1 / 2"
  unfolding rne_def Let_def by (auto; linarith)

lemma rne_nonneg: "0 \<le> x \<Longrightarrow> 0 \<le> rne x"
  unfolding rne_def Let_def by auto

lemma expo_search_le:
  "2 powi lo \<le> max a mnorm \<Longrightarrow> 2 powi (expo_search k lo a) \<le> max a mnorm"
  by (induction k arbitrary: lo) auto

lemma binade_le: "2 powi (binade a) \<le> max a mnorm"
  unfolding binade_def by (rule expo_search_le) (simp add: mnorm_def)

lemma rnd_cases: "(\<exists>v. rnd r = Finite v) \<or> rnd r = PInf \<or> rnd r = NInf"
  unfolding rnd_def Let_def by auto

lemma scaled_rne_error:
  assumes "0 < q"
  shows "\<bar>of_int (rne (r / q)) * q - r\<bar> \<le> q / 2"
proof -
  have "of_int (rne (r / q)) * q - r = (of_int (rne (r / q)) - r / q) * q"
    using assms by (simp add: field_simps)
  then have "\<bar>of_int (rne (r / q)) * q - r\<bar> = \<bar>of_int (rne (r / q)) - r / q\<bar> * q"
    using assms by (simp add: abs_mult)
  also have "\<dots> \<le> (1 / 2) * q"
    using rne_error[of "r / q"] assms by (intro mult_right_mono) auto
  finally show ?thesis by simp
qed

lemma grid_near:
  "near r (of_int (rne (r / 2 powi (binade \<bar>r\<bar> - 52))) * 2 powi (binade \<bar>r\<bar> - 52))"
proof -
  define q :: real where "q = 2 powi (binade \<bar>r\<bar> - 52)"
  have qpos: "0 < q" by (simp add: q_def)
  have "\<bar>of_int (rne (r / q)) * q - r\<bar> \<le> q / 2"
    using qpos by (rule scaled_rne_error)
  also have "q / 2 = u53 * 2 powi (binade \<bar>r\<bar>)"
    by (simp add: q_def u53_def power_int_diff)
  also have "\<dots> \<le> u53 * max \<bar>r\<bar> mnorm"
    using binade_le[of "\<bar>r\<bar>"] by (intro mult_left_mono) (auto simp: u53_def)
  finally show ?thesis by (simp add: near_def q_def)
qed

lemma rnd_near: "rnd r = Finite v \<Longrightarrow> near r v"
  using grid_near[of r] unfolding rnd_def Let_def by (auto split: if_splits)

lemma rnd_nonneg:
  assumes "rnd r = Finite v" "0 \<le> r"
  shows "0 \<le> v"
proof -
  define q :: real where "q = 2 powi (binade \<bar>r\<bar> - 52)"
  have qpos: "0 < q" by (simp add: q_def)
  have v: "v = of_int (rne (r / q)) * q"
    using assms unfolding rnd_def Let_def q_def by (auto split: if_splits)
  have "0 \<le> rne (r / q)" using assms qpos by (intro rne_nonneg) auto
  then show ?thesis using qpos by (simp add: v)
qed

lemma rnd_Finite_less: "rnd r = Finite v \<Longrightarrow> \<bar>v\<bar> < 2 ^ 1024"
  unfolding rnd_def Let_def by (auto split: if_splits)

lemma mnorm_le_1: "mnorm \<le> 1"
  by (simp add: mnorm_def power_int_minus_divide)

lemma pow_1024: "(2::real) ^ 1024 = 2 * 2 ^ 1023"
proof -
  have "(2::real) ^ Suc 1023 = 2 * 2 ^ 1023" by (rule power_Suc)
  then show ?thesis by simp
qed

lemma rnd_finite:
  assumes "\<bar>r\<bar> \<le> 2 ^ 1023"
  shows "\<exists>v. rnd r = Finite v"
proof -
  define v :: real
    where "v = of_int (rne (r / 2 powi (binade \<bar>r\<bar> - 52))) * 2 powi (binade \<bar>r\<bar> - 52)"
  define W :: real where "W = 2 ^ 1023"
  have Wpos: "1 \<le> W" unfolding W_def by (rule one_le_power) simp
  have e: "\<bar>v - r\<bar> \<le> u53 * max \<bar>r\<bar> mnorm"
    using grid_near[of r] by (simp add: near_def v_def)
  have M: "max \<bar>r\<bar> mnorm \<le> W" using assms mnorm_le_1 Wpos by (simp add: max_def W_def)
  have "u53 * max \<bar>r\<bar> mnorm \<le> (1 / 2) * W"
    using M by (intro mult_mono) (auto simp: u53_def)
  then have "\<bar>v\<bar> < 2 * W" using e assms Wpos unfolding W_def[symmetric] by linarith
  then have "\<bar>v\<bar> < 2 ^ 1024" unfolding pow_1024 W_def .
  then show ?thesis unfolding rnd_def Let_def v_def[symmetric] by auto
qed

section \<open>The rounding and the binary64 numbers\<close>

lemma expo_search_ge: "lo \<le> expo_search k lo a"
proof (induction k arbitrary: lo)
  case 0
  show ?case by simp
next
  case (Suc k)
  have "lo \<le> lo + 2 ^ k" by simp
  also have "\<dots> \<le> expo_search k (lo + 2 ^ k) a" by (rule Suc.IH)
  finally show ?case using Suc.IH[of lo] by simp
qed

lemma expo_search_upper:
  "a < 2 powi (lo + 2 ^ k) \<Longrightarrow> a < 2 powi (expo_search k lo a + 1)"
proof (induction k arbitrary: lo)
  case 0
  then show ?case by simp
next
  case (Suc k)
  show ?case
  proof (cases "2 powi (lo + 2 ^ k) \<le> a")
    case True
    have "lo + 2 ^ k + 2 ^ k = lo + 2 ^ Suc k" by simp
    then have "a < 2 powi (lo + 2 ^ k + 2 ^ k)" using Suc.prems by (simp only:)
    then show ?thesis using True Suc.IH[of "lo + 2 ^ k"] by simp
  next
    case False
    then show ?thesis using Suc.IH[of lo] by simp
  qed
qed

lemma expo_search_lower:
  "lo = - 1022 \<or> 2 powi lo \<le> a \<Longrightarrow>
     expo_search k lo a = - 1022 \<or> 2 powi (expo_search k lo a) \<le> a"
  by (induction k arbitrary: lo) auto

lemma expo_search_top:
  "2 powi (lo + 2 ^ k) \<le> a \<Longrightarrow> expo_search k lo a = lo + 2 ^ k - 1"
proof (induction k arbitrary: lo)
  case 0
  show ?case by simp
next
  case (Suc k)
  have "(2::real) powi (lo + 2 ^ k) \<le> 2 powi (lo + 2 ^ Suc k)"
    by (intro power_int_increasing) auto
  then have 1: "2 powi (lo + 2 ^ k) \<le> a" using Suc.prems by linarith
  have "2 powi (lo + 2 ^ k + 2 ^ k) \<le> a" using Suc.prems by (simp add: add.assoc)
  then have "expo_search k (lo + 2 ^ k) a = lo + 2 ^ k + 2 ^ k - 1" by (rule Suc.IH)
  then show ?case using 1 by simp
qed

lemma binade_ge: "- 1022 \<le> binade a"
  unfolding binade_def by (rule expo_search_ge)

lemma binade_lower: "binade a = - 1022 \<or> 2 powi (binade a) \<le> a"
  unfolding binade_def by (rule expo_search_lower) simp

text \<open>
  The binade is the exponent of the magnitude: for a magnitude in the range of the normal
  numbers it is the integer part of the binary logarithm; below that range it is
  \<open>-1022\<close>.
\<close>

lemma binade_bounds:
  assumes "2 powi (- 1022) \<le> a" "a < 2 ^ 1024"
  shows "2 powi (binade a) \<le> a \<and> a < 2 powi (binade a + 1)"
proof -
  have lo: "2 powi (binade a) \<le> a" using binade_lower[of a] assms(1) by auto
  have "(2::real) ^ 1024 \<le> 2 ^ 1026" by (intro power_increasing) auto
  then have "a < 2 powi (- 1022 + 2 ^ 11)" using assms(2) by simp
  then have "a < 2 powi (binade a + 1)" unfolding binade_def by (rule expo_search_upper)
  then show ?thesis using lo by simp
qed

lemma binade_subnormal:
  assumes "a < 2 powi (- 1022)"
  shows "binade a = - 1022"
proof (rule ccontr)
  assume "binade a \<noteq> - 1022"
  then have "2 powi (binade a) \<le> a" using binade_lower[of a] by simp
  moreover have "(2::real) powi (- 1022) \<le> 2 powi (binade a)"
    using binade_ge[of a] by (intro power_int_increasing) auto
  ultimately show False using assms by linarith
qed

lemma rne_of_int [simp]: "rne (of_int k) = k"
  by (simp add: rne_def)

lemma rne_bound:
  assumes "\<bar>x\<bar> < of_int N"
  shows "\<bar>rne x\<bar> \<le> N"
proof -
  have "x < of_int N" "of_int (- N) < x" using assms by (simp_all add: abs_less_iff)
  then have "\<lfloor>x\<rfloor> < N" "- N \<le> \<lfloor>x\<rfloor>" by (simp_all add: floor_less_iff le_floor_iff)
  moreover have "\<lfloor>x\<rfloor> \<le> rne x" "rne x \<le> \<lfloor>x\<rfloor> + 1" by (simp_all add: rne_def Let_def)
  ultimately show ?thesis by linarith
qed

text \<open>
  Rounding leaves a binary64 number as it is: an integer of less than 53 bits times a
  power of two not below \<open>2 powi -1074\<close>, of magnitude below \<open>2 ^ 1024\<close>.
\<close>

lemma rnd_exact:
  assumes r: "r = of_int n * 2 powi e" and n: "\<bar>n\<bar> < 2 ^ 53" and e: "- 1074 \<le> e"
    and fin: "\<bar>r\<bar> < 2 ^ 1024"
  shows "rnd r = Finite r"
proof -
  define b where "b = binade \<bar>r\<bar>"
  from binade_lower[of "\<bar>r\<bar>"] have be: "b - 52 \<le> e"
  proof
    assume "binade \<bar>r\<bar> = - 1022"
    then show ?thesis using e by (simp add: b_def)
  next
    assume lo: "2 powi (binade \<bar>r\<bar>) \<le> \<bar>r\<bar>"
    have "\<bar>r\<bar> = of_int \<bar>n\<bar> * 2 powi e" by (simp add: r abs_mult)
    also have "\<dots> < 2 ^ 53 * 2 powi e"
    proof -
      have "(of_int \<bar>n\<bar> :: real) < of_int (2 ^ 53)" using n by (simp only: of_int_less_iff)
      then have "(of_int \<bar>n\<bar> :: real) < 2 ^ 53" by simp
      then show ?thesis by (intro mult_strict_right_mono) auto
    qed
    also have "\<dots> = 2 powi (e + 53)" by (simp add: power_int_add)
    finally have "(2::real) powi b < 2 powi (e + 53)" using lo by (simp add: b_def)
    then have "b < e + 53"
      by (meson linorder_not_less one_le_numeral power_int_increasing)
    then show ?thesis by simp
  qed
  define d where "d = nat (e - (b - 52))"
  have ed: "e = (b - 52) + int d" using be by (simp add: d_def)
  have "r / 2 powi (b - 52) = of_int n * 2 ^ d"
    by (simp add: r ed power_int_add)
  also have "\<dots> = of_int (n * 2 ^ d)" by simp
  finally have q: "r / 2 powi (b - 52) = of_int (n * 2 ^ d)" .
  have v: "of_int (rne (r / 2 powi (b - 52))) * 2 powi (b - 52) = r"
    unfolding q rne_of_int by (simp add: r ed power_int_add)
  show ?thesis
    unfolding rnd_def Let_def b_def[symmetric] v using fin by simp
qed

text \<open>
  Every finite result of a rounding is a binary64 number: rounding it again changes
  nothing.
\<close>

lemma rnd_idem:
  assumes a: "rnd r = Finite v"
  shows "rnd v = Finite v"
proof -
  define b where "b = binade \<bar>r\<bar>"
  define q :: real where "q = 2 powi (b - 52)"
  define n where "n = rne (r / q)"
  have qpos: "0 < q" by (simp add: q_def)
  have v: "v = of_int n * q" and fin: "\<bar>v\<bar> < 2 ^ 1024"
    using a unfolding rnd_def Let_def b_def q_def n_def by (auto split: if_splits)
  have b_lo: "- 1022 \<le> b" unfolding b_def by (rule binade_ge)
  have r_hi: "\<bar>r\<bar> < 2 powi (b + 1)"
  proof (rule ccontr)
    assume "\<not> \<bar>r\<bar> < 2 powi (b + 1)"
    then have "\<not> \<bar>r\<bar> < 2 powi (- 1022 + 2 ^ 11)"
      using expo_search_upper[of "\<bar>r\<bar>" "- 1022" 11] unfolding b_def binade_def by linarith
    then have r1026: "2 powi 1026 \<le> \<bar>r\<bar>" by simp
    then have "2 powi (- 1022 + 2 ^ 11) \<le> \<bar>r\<bar>" by simp
    then have "expo_search 11 (- 1022) \<bar>r\<bar> = - 1022 + 2 ^ 11 - 1" by (rule expo_search_top)
    then have "b = 1025" by (simp add: b_def binade_def)
    then have q973: "q = 2 powi 973" by (simp add: q_def)
    have "\<bar>v - r\<bar> \<le> q / 2" unfolding v n_def using qpos by (rule scaled_rne_error)
    moreover have "q / 2 \<le> 2 powi 1025"
    proof -
      have "(2::real) powi 973 \<le> 2 powi 1025" by (intro power_int_increasing) auto
      then show ?thesis unfolding q973 by simp
    qed
    moreover have "(2::real) powi 1026 = 2 * 2 powi 1025"
      using power_int_add[of "2::real" 1 1025] by simp
    moreover have "(2::real) ^ 1024 \<le> 2 powi 1025"
      using power_int_increasing[of 1024 1025 "2::real"] by simp
    ultimately show False using r1026 fin by linarith
  qed
  have "\<bar>r / q\<bar> < 2 ^ 53"
  proof -
    have "\<bar>r\<bar> < 2 ^ 53 * q"
      using r_hi by (simp add: q_def power_int_add power_int_diff)
    then show ?thesis using qpos by (simp add: abs_divide pos_divide_less_eq)
  qed
  then have "\<bar>r / q\<bar> < of_int (2 ^ 53)" by simp
  then have nb: "\<bar>n\<bar> \<le> 2 ^ 53" unfolding n_def by (rule rne_bound)
  show ?thesis
  proof (cases "\<bar>n\<bar> < 2 ^ 53")
    case True
    have "- 1074 \<le> b - 52" using b_lo by simp
    then show ?thesis using rnd_exact[OF _ True _ fin, of "b - 52"] by (simp add: v q_def)
  next
    case False
    then have "\<bar>n\<bar> = 2 ^ 53" using nb by simp
    then have "n = 2 ^ 53 \<or> n = - (2 ^ 53)" by linarith
    then have vv: "v = of_int 1 * 2 powi (b + 1) \<or> v = of_int (- 1) * 2 powi (b + 1)"
      by (auto simp: v q_def power_int_add power_int_diff)
    have e: "- 1074 \<le> b + 1" using b_lo by simp
    have one: "\<bar>1::int\<bar> < 2 ^ 53" "\<bar>- 1::int\<bar> < 2 ^ 53" by simp_all
    from vv show ?thesis
    proof
      assume "v = of_int 1 * 2 powi (b + 1)"
      then show ?thesis using fin by (intro rnd_exact[OF _ one(1) e]) auto
    next
      assume "v = of_int (- 1) * 2 powi (b + 1)"
      then show ?thesis using fin by (intro rnd_exact[OF _ one(2) e]) auto
    qed
  qed
qed

section \<open>Polygon winding test on short inputs\<close>

text \<open>
  C10. For every input slice of fewer than 3 points, \<^verbatim>\<open>IsPolygonClockwise\<close> returns false
  without evaluating the signed-area sum. The slice may hold anything, \<^verbatim>\<open>nil\<close> pointers
  included, which the sum would dereference.
\<close>

theorem IsPolygonClockwise_short:
  "length polygon < 3 \<Longrightarrow> IsPolygonClockwise polygon = Inr False"
  by (simp add: IsPolygonClockwise_def)

theorem IsPolygonClockwise_short_witness:
  "length [None, None :: Vector2 option] < 3 \<and> IsPolygonClockwise [None, None] = Inr False"
  using IsPolygonClockwise_short [of "[None, None]"] by simp

text \<open>With three \<^verbatim>\<open>nil\<close> pointers the sum is evaluated, and the first term panics.\<close>

lemma IsPolygonClockwise_nil_panics:
  "IsPolygonClockwise [None, None, None] =
     Inl (Panic ''runtime error: invalid memory address or nil pointer dereference'')"
  by (simp add: IsPolygonClockwise_def)

section \<open>Axis-angle quaternion on an axis that is not normalized\<close>

text \<open>
  C5. For every axis vector that is not normalized (\<^verbatim>\<open>IsNormalized()\<close> is false) and every
  angle, \<^verbatim>\<open>Rotated(axis, angle)\<close> returns the identity quaternion (0, 0, 0, 1); no error
  is reported.
\<close>

theorem Rotated_not_normalized:
  "\<not> Vector3_IsNormalized axis \<Longrightarrow>
     Rotated axis angle = \<lparr>QX = Finite 0, QY = Finite 0, QZ = Finite 0, QW = Finite 1\<rparr>"
  by (simp add: Rotated_def IDENTITY_def Quaternion_New_def)

lemma not_normalized_200:
  "\<not> Vector3_IsNormalized \<lparr>X3 = Finite 2, Y3 = Finite 0, Z3 = Finite 0\<rparr>"
  by (simp add: Vector3_IsNormalized_def Vector3_LengthSquared_def IsEqualApprox_def
      IsZeroApprox_def f64_sub_def CMP_EPSILON_value)

theorem Rotated_not_normalized_witness:
  "\<not> Vector3_IsNormalized \<lparr>X3 = Finite 2, Y3 = Finite 0, Z3 = Finite 0\<rparr> \<and>
   Rotated \<lparr>X3 = Finite 2, Y3 = Finite 0, Z3 = Finite 0\<rparr> (Finite 1) =
     \<lparr>QX = Finite 0, QY = Finite 0, QZ = Finite 0, QW = Finite 1\<rparr>"
  using Rotated_not_normalized [OF not_normalized_200, of "Finite 1"] not_normalized_200
  by simp

section \<open>RotateToward when the angle difference is negative\<close>

lemma f64_lt_not_ge: "f64_lt d (Finite 0) \<Longrightarrow> \<not> f64_ge d (Finite 0)"
  by (cases d) (simp_all add: f64_ge_def)

text \<open>
  C7. \<^verbatim>\<open>RotateToward\<close> has a code path on which it returns -1.0 unconditionally: for every
  \<open>p_from\<close>, \<open>p_to\<close> and \<open>p_delta\<close> such that \<^verbatim>\<open>AngleDifference(p_from, p_to)\<close> is
  negative, the result is exactly -1.0, whatever \<open>p_delta\<close> is.
\<close>

theorem RotateToward_negative_difference:
  "f64_lt (AngleDifference p_from p_to) (Finite 0) \<Longrightarrow>
     RotateToward p_from p_to p_delta = Finite (- 1)"
  by (simp add: RotateToward_def Let_def f64_lt_not_ge)

lemma AngleDifference_1_0: "AngleDifference (Finite 1) (Finite 0) = Finite (- 1)"
  by (simp add: AngleDifference_def TAU_value f64_sub_def trunc_quot_def rnd_eval)

text \<open>The path is taken: from angle 1 toward angle 0 by a step of 0.5.\<close>

theorem RotateToward_negative_difference_witness:
  "f64_lt (AngleDifference (Finite 1) (Finite 0)) (Finite 0) \<and>
   RotateToward (Finite 1) (Finite 0) (Finite (1 / 2)) = Finite (- 1)"
  using RotateToward_negative_difference [of "Finite 1" "Finite 0" "Finite (1 / 2)"]
  by (simp add: AngleDifference_1_0)


section \<open>Transform2D: the inverses\<close>

text \<open>
  The guard: when the determinant compares equal to zero, \<^verbatim>\<open>Inverse()\<close> and
  \<^verbatim>\<open>AffineInverse()\<close> return the zero value \<^verbatim>\<open>Transform2D{}\<close> (every cell 0).
\<close>

lemma Transform2D_zero_determinant:
  "f64_eq (determinant t) (Finite 0) \<Longrightarrow>
     Transform2D_Inverse t = Transform2D_zero \<and> Transform2D_AffineInverse t = Transform2D_zero"
  by (simp add: Transform2D_Inverse_def Transform2D_AffineInverse_def Let_def)

lemma determinant_singular_t: "determinant singular_t = Finite 0"
  by (simp add: determinant_def singular_t_def col_def f64_sub_def)

lemma Transform2D_zero_determinant_example:
  "Transform2D_Inverse singular_t = Transform2D_zero \<and>
   Transform2D_AffineInverse singular_t = Transform2D_zero"
  by (rule Transform2D_zero_determinant) (simp add: determinant_singular_t)

lemma rnd_minus_1 [simp]: "rnd (- 1) = Finite (- 1)"
  by (simp add: rnd_eval)

lemma rnd_minus_2 [simp]: "rnd (- 2) = Finite (- 2)"
  by (simp add: rnd_eval)

lemma rnd_minus_half [simp]: "rnd (- (1 / 2)) = Finite (- (1 / 2))"
  by (simp add: rnd_eval)

lemma rnd_minus_quarter [simp]: "rnd (- (1 / 4)) = Finite (- (1 / 4))"
  by (simp add: rnd_eval)

lemma determinant_scaled_t: "determinant scaled_t = Finite 8"
  by (simp add: determinant_def scaled_t_def col_def f64_sub_def)

lemma determinant_quarter_turn_t: "determinant quarter_turn_t = Finite 1"
  by (simp add: determinant_def quarter_turn_t_def col_def f64_sub_def)

lemma AffineInverse_scaled_t:
  "Transform2D_AffineInverse scaled_t =
     \<lparr>Columns = Array3 \<lparr>X2 = Finite (1 / 2), Y2 = Finite 0\<rparr> \<lparr>X2 = Finite 0, Y2 = Finite (1 / 4)\<rparr>
                       \<lparr>X2 = Finite (- (1 / 4)), Y2 = Finite (- (1 / 2))\<rparr>\<rparr>"
  unfolding Transform2D_AffineInverse_def determinant_scaled_t
  by (simp add: Let_def Vector2_New_def scaled_t_def col_def tdotx_def tdoty_def)

lemma Inverse_quarter_turn_t:
  "Transform2D_Inverse quarter_turn_t =
     \<lparr>Columns = Array3 \<lparr>X2 = Finite 0, Y2 = Finite (- 1)\<rparr> \<lparr>X2 = Finite 1, Y2 = Finite 0\<rparr>
                       \<lparr>X2 = Finite 0, Y2 = Finite (- 1)\<rparr>\<rparr>"
  unfolding Transform2D_Inverse_def determinant_quarter_turn_t
  by (simp add: Vector2_New_def quarter_turn_t_def col_def tdotx_def tdoty_def)

text \<open>
  C6. The claim: for every \<^verbatim>\<open>Transform2D\<close> whose determinant is exactly zero, \<^verbatim>\<open>Inverse()\<close>
  and \<^verbatim>\<open>AffineInverse()\<close> return the zero value \<^verbatim>\<open>Transform2D{}\<close>; for every transform
  with a determinant that is not zero they return the computed inverse. The first half
  holds (\<open>Transform2D_zero_determinant\<close>). The second does not: the origin column of
  the result is computed from the matrix itself, not from its inverse, so the result is
  no inverse once the origin is not zero. The scaling by (2, 4) with origin (1, 1) has
  determinant 8; its inverse has the origin (-1/2, -1/4), \<^verbatim>\<open>AffineInverse\<close> returns the
  origin (-1/4, -1/2), and the point (0, 0), sent to (1, 1), comes back as (1/4, -1/4).
  The quarter turn with origin (1, 0) has determinant 1; its inverse has the origin
  (0, 1), \<^verbatim>\<open>Inverse\<close> returns the origin (0, -1), and the point (0, 0), sent to (1, 0),
  comes back as (0, -2). Every number of these runs is a small power of two or 0, so no
  operation rounds.
\<close>

theorem Transform2D_inverse_roundtrip_fails:
  "determinant scaled_t = Finite 8 \<and>
   Transform2D_AffineInverse scaled_t =
     \<lparr>Columns = Array3 \<lparr>X2 = Finite (1 / 2), Y2 = Finite 0\<rparr> \<lparr>X2 = Finite 0, Y2 = Finite (1 / 4)\<rparr>
                       \<lparr>X2 = Finite (- (1 / 4)), Y2 = Finite (- (1 / 2))\<rparr>\<rparr> \<and>
   Transform2D_Xform scaled_t \<lparr>X2 = Finite 0, Y2 = Finite 0\<rparr> = \<lparr>X2 = Finite 1, Y2 = Finite 1\<rparr> \<and>
   Transform2D_Xform (Transform2D_AffineInverse scaled_t) \<lparr>X2 = Finite 1, Y2 = Finite 1\<rparr> =
     \<lparr>X2 = Finite (1 / 4), Y2 = Finite (- (1 / 4))\<rparr> \<and>
   determinant quarter_turn_t = Finite 1 \<and>
   Transform2D_Inverse quarter_turn_t =
     \<lparr>Columns = Array3 \<lparr>X2 = Finite 0, Y2 = Finite (- 1)\<rparr> \<lparr>X2 = Finite 1, Y2 = Finite 0\<rparr>
                       \<lparr>X2 = Finite 0, Y2 = Finite (- 1)\<rparr>\<rparr> \<and>
   Transform2D_Xform quarter_turn_t \<lparr>X2 = Finite 0, Y2 = Finite 0\<rparr> =
     \<lparr>X2 = Finite 1, Y2 = Finite 0\<rparr> \<and>
   Transform2D_Xform (Transform2D_Inverse quarter_turn_t) \<lparr>X2 = Finite 1, Y2 = Finite 0\<rparr> =
     \<lparr>X2 = Finite 0, Y2 = Finite (- 2)\<rparr> \<and>
   \<not> IsEqualApprox (Finite (1 / 4)) (Finite 0) \<and>
   \<not> IsEqualApprox (Finite (- 2)) (Finite 0)"
  unfolding AffineInverse_scaled_t Inverse_quarter_turn_t determinant_scaled_t
    determinant_quarter_turn_t
  by (simp add: Transform2D_Xform_def Vector2_New_def Vector2_Add_def tdotx_def tdoty_def col_def
      scaled_t_def quarter_turn_t_def IsEqualApprox_def IsZeroApprox_def f64_sub_def
      CMP_EPSILON_value)

section \<open>Basis.Invert: the singular-matrix error\<close>





section \<open>Basis.Invert followed by Xform\<close>

text \<open>
  The second and third row are computed after the first row has been overwritten: the
  cofactor \<^verbatim>\<open>cofac(b.Rows, 0, 0, 2, 2)\<close> of the original rows is 2, the one the second
  statement reads is 1/2.
\<close>

lemma Invert_reads_overwritten_row:
  "cofac (Rows diag211) 0 0 2 2 = Finite 2 \<and>
   cofac (upd3 (Rows diag211) 0 (Array3 (Finite (1 / 2)) (Finite 0) (Finite 0))) 0 0 2 2
     = Finite (1 / 2)"
  by (simp add: cofac_def diag211_def f64_sub_def)

lemma Invert_det_diag211: "Invert_det diag211 = Finite 2"
  by (simp add: Invert_det_def Invert_co_def cofac_def rc_def diag211_def f64_sub_def rnd_eval)

lemma Invert_diag211:
  "Basis_Invert diag211 =
     (\<lparr>Rows = Array3 (Array3 (Finite (1 / 2)) (Finite 0) (Finite 0))
                     (Array3 (Finite 0) (Finite (1 / 4)) (Finite 0))
                     (Array3 (Finite 0) (Finite 0) (Finite (1 / 16)))\<rparr>, None)"
  unfolding Basis_Invert_def Invert_det_diag211
  by (simp add: Let_def Invert_co_def cofac_def diag211_def f64_sub_def)

text \<open>
  C1. The claim: for every basis \<open>B\<close> with a determinant that is not zero and every
  \<open>x\<close>, transforming \<open>x\<close> by \<open>B\<close> and then by the basis that \<^verbatim>\<open>Invert\<close> leaves gives
  approximately \<open>x\<close> again. The code does not do this. On the basis with rows (2, 0, 0),
  (0, 1, 0), (0, 0, 1), whose inverse has the rows (1/2, 0, 0), (0, 1, 0), (0, 0, 1),
  \<^verbatim>\<open>Invert\<close> returns no error and leaves the rows (1/2, 0, 0), (0, 1/4, 0), (0, 0, 1/16);
  the round trip of \<open>x = (0, 1, 0)\<close> ends at (0, 1/4, 0), and 1/4 is not approximately 1.
  Every number of this run is a small power of two, so no operation rounds.
\<close>

theorem Invert_roundtrip_diag211:
  "Invert_det diag211 = Finite 2 \<and>
   Basis_Invert diag211 =
     (\<lparr>Rows = Array3 (Array3 (Finite (1 / 2)) (Finite 0) (Finite 0))
                     (Array3 (Finite 0) (Finite (1 / 4)) (Finite 0))
                     (Array3 (Finite 0) (Finite 0) (Finite (1 / 16)))\<rparr>, None) \<and>
   Basis_Xform (fst (Basis_Invert diag211))
       (Basis_Xform diag211 (Array3 (Finite 0) (Finite 1) (Finite 0))) =
     Array3 (Finite 0) (Finite (1 / 4)) (Finite 0) \<and>
   \<not> IsEqualApprox (Finite (1 / 4)) (Finite 1)"
  unfolding Invert_diag211 Invert_det_diag211
  by (simp add: Basis_Xform_def Dot3_def diag211_def IsEqualApprox_def IsZeroApprox_def
      f64_sub_def CMP_EPSILON_value rnd_eval)

section \<open>Division of a vector by zero\<close>

text \<open>
  C3, as the code has it. \<^verbatim>\<open>Div\<close> and \<^verbatim>\<open>Divf\<close> of \<^verbatim>\<open>Vector2\<close> and \<^verbatim>\<open>Vector3\<close> never fail,
  and every component whose divisor compares equal to zero is set to positive infinity,
  \<^verbatim>\<open>math.Inf(1)\<close>, whatever the component was (negative, zero and NaN included): the sign
  of the infinity does not follow the operands.
\<close>

theorem Div_by_zero_is_PInf:
  "(f64_eq s (Finite 0) \<longrightarrow>
      Vector2_Divf v s = \<lparr>X2 = PInf, Y2 = PInf\<rparr> \<and>
      Vector3_Divf w s = \<lparr>X3 = PInf, Y3 = PInf, Z3 = PInf\<rparr>) \<and>
   (f64_eq (X2 b) (Finite 0) \<longrightarrow> X2 (Vector2_Div v b) = PInf) \<and>
   (f64_eq (Y2 b) (Finite 0) \<longrightarrow> Y2 (Vector2_Div v b) = PInf) \<and>
   (f64_eq (X3 c) (Finite 0) \<longrightarrow> X3 (Vector3_Div w c) = PInf) \<and>
   (f64_eq (Y3 c) (Finite 0) \<longrightarrow> Y3 (Vector3_Div w c) = PInf) \<and>
   (f64_eq (Z3 c) (Finite 0) \<longrightarrow> Z3 (Vector3_Div w c) = PInf)"
  by (simp add: Vector2_Divf_def Vector3_Divf_def Vector3_set_def Vector2_Div_def
      Vector3_Div_def Let_def)

theorem Div_by_zero_is_PInf_witness:
  "f64_eq (Finite 0) (Finite 0) \<and>
   Vector2_Divf \<lparr>X2 = Finite (- 1), Y2 = Finite 0\<rparr> (Finite 0) = \<lparr>X2 = PInf, Y2 = PInf\<rparr> \<and>
   Vector3_Divf \<lparr>X3 = Finite (- 1), Y3 = Finite 0, Z3 = NaN\<rparr> (Finite 0) =
     \<lparr>X3 = PInf, Y3 = PInf, Z3 = PInf\<rparr> \<and>
   Vector2_Div \<lparr>X2 = Finite (- 1), Y2 = Finite 0\<rparr> \<lparr>X2 = Finite 0, Y2 = Finite 0\<rparr> =
     \<lparr>X2 = PInf, Y2 = PInf\<rparr> \<and>
   Vector3_Div \<lparr>X3 = Finite (- 1), Y3 = Finite 0, Z3 = NaN\<rparr>
       \<lparr>X3 = Finite 0, Y3 = Finite 0, Z3 = Finite 0\<rparr> =
     \<lparr>X3 = PInf, Y3 = PInf, Z3 = PInf\<rparr>"
  using Div_by_zero_is_PInf [of "Finite 0" "\<lparr>X2 = Finite (- 1), Y2 = Finite 0\<rparr>"
      "\<lparr>X3 = Finite (- 1), Y3 = Finite 0, Z3 = NaN\<rparr>" "\<lparr>X2 = Finite 0, Y2 = Finite 0\<rparr>"
      "\<lparr>X3 = Finite 0, Y3 = Finite 0, Z3 = Finite 0\<rparr>"]
  by (simp add: Vector2.equality Vector3.equality)

text \<open>
  C3 as claimed (the infinity takes the sign floating-point division gives it) fails:
  -1 divided by 0 is negative infinity in binary64, and the code stores positive infinity.
\<close>

theorem Divf_sign_counterexample:
  "X2 (Vector2_Divf \<lparr>X2 = Finite (- 1), Y2 = Finite 1\<rparr> (Finite 0)) = PInf \<and>
   f64_div (Finite (- 1)) (Finite 0) = NInf \<and>
   X3 (Vector3_Div \<lparr>X3 = Finite (- 1), Y3 = Finite 1, Z3 = Finite 1\<rparr>
         \<lparr>X3 = Finite 0, Y3 = Finite 1, Z3 = Finite 1\<rparr>) = PInf"
  by (simp add: Vector2_Divf_def Vector3_Div_def Let_def)

section \<open>Slide and Reflect with a normal that is not normalized\<close>

text \<open>
  C4, as the code has it. For every \<^verbatim>\<open>Vector2\<close> \<open>v\<close> and every normal \<open>n\<close> that is not
  normalized, \<^verbatim>\<open>v.Slide(n)\<close> and \<^verbatim>\<open>v.Reflect(n)\<close> panic. For every \<^verbatim>\<open>Vector3\<close> \<open>w\<close> and
  every normal \<open>m\<close> that is not normalized, \<^verbatim>\<open>w.Slide(m)\<close> and \<^verbatim>\<open>w.Reflect(m)\<close> do not
  panic: they return \<open>w\<close> unchanged.
\<close>

theorem Slide_Reflect_not_normalized:
  "(\<not> Vector2_IsNormalized n \<longrightarrow>
      Vector2_Slide v n =
        Inl (Panic ''normal:Vector2 must be normalized before function:Vector2.Slide'') \<and>
      Vector2_Reflect v n =
        Inl (Panic ''normal:Vector2 must be normalized before function:Vector2.Slide'')) \<and>
   (\<not> Vector3_IsNormalized m \<longrightarrow>
      Vector3_Slide w m = Inr w \<and> Vector3_Reflect w m = Inr w)"
  by (simp add: Vector2_Slide_def Vector2_Reflect_def Vector3_Slide_def Vector3_Reflect_def)

lemma not_normalized_20: "\<not> Vector2_IsNormalized \<lparr>X2 = Finite 2, Y2 = Finite 0\<rparr>"
  by (simp add: Vector2_IsNormalized_def Vector2_LengthSquared_def IsEqualApprox_def
      IsZeroApprox_def f64_sub_def CMP_EPSILON_value)

theorem Slide_Reflect_not_normalized_witness:
  "\<not> Vector2_IsNormalized \<lparr>X2 = Finite 2, Y2 = Finite 0\<rparr> \<and>
   Vector2_Slide \<lparr>X2 = Finite 1, Y2 = Finite 1\<rparr> \<lparr>X2 = Finite 2, Y2 = Finite 0\<rparr> =
     Inl (Panic ''normal:Vector2 must be normalized before function:Vector2.Slide'') \<and>
   Vector2_Reflect \<lparr>X2 = Finite 1, Y2 = Finite 1\<rparr> \<lparr>X2 = Finite 2, Y2 = Finite 0\<rparr> =
     Inl (Panic ''normal:Vector2 must be normalized before function:Vector2.Slide'') \<and>
   \<not> Vector3_IsNormalized \<lparr>X3 = Finite 2, Y3 = Finite 0, Z3 = Finite 0\<rparr> \<and>
   Vector3_Slide \<lparr>X3 = Finite 1, Y3 = Finite 1, Z3 = Finite 1\<rparr>
       \<lparr>X3 = Finite 2, Y3 = Finite 0, Z3 = Finite 0\<rparr> =
     Inr \<lparr>X3 = Finite 1, Y3 = Finite 1, Z3 = Finite 1\<rparr> \<and>
   Vector3_Reflect \<lparr>X3 = Finite 1, Y3 = Finite 1, Z3 = Finite 1\<rparr>
       \<lparr>X3 = Finite 2, Y3 = Finite 0, Z3 = Finite 0\<rparr> =
     Inr \<lparr>X3 = Finite 1, Y3 = Finite 1, Z3 = Finite 1\<rparr>"
  using Slide_Reflect_not_normalized [of "\<lparr>X2 = Finite 2, Y2 = Finite 0\<rparr>"
      "\<lparr>X2 = Finite 1, Y2 = Finite 1\<rparr>" "\<lparr>X3 = Finite 2, Y3 = Finite 0, Z3 = Finite 0\<rparr>"
      "\<lparr>X3 = Finite 1, Y3 = Finite 1, Z3 = Finite 1\<rparr>"]
    not_normalized_20 not_normalized_200
  by simp

text \<open>
  C4 as claimed (the \<^verbatim>\<open>Vector3\<close> methods panic as well) fails on the normal (2, 0, 0).
\<close>

theorem Vector3_Slide_counterexample:
  "\<not> Vector3_IsNormalized \<lparr>X3 = Finite 2, Y3 = Finite 0, Z3 = Finite 0\<rparr> \<and>
   Vector3_Slide \<lparr>X3 = Finite 1, Y3 = Finite 1, Z3 = Finite 1\<rparr>
       \<lparr>X3 = Finite 2, Y3 = Finite 0, Z3 = Finite 0\<rparr> =
     Inr \<lparr>X3 = Finite 1, Y3 = Finite 1, Z3 = Finite 1\<rparr> \<and>
   Vector3_Reflect \<lparr>X3 = Finite 1, Y3 = Finite 1, Z3 = Finite 1\<rparr>
       \<lparr>X3 = Finite 2, Y3 = Finite 0, Z3 = Finite 0\<rparr> =
     Inr \<lparr>X3 = Finite 1, Y3 = Finite 1, Z3 = Finite 1\<rparr>"
  using not_normalized_200 by (simp add: Vector3_Slide_def Vector3_Reflect_def)

section \<open>Closest point on a degenerate segment\<close>

text \<open>
  C9, as the code has it. For every query point \<open>p\<close> (NaN and infinite coordinates
  included) and every segment whose two endpoints are the same point \<open>a\<close> with finite
  coordinates, \<^verbatim>\<open>GetClosestPointToSegment\<close> returns \<open>a\<close>.
\<close>

theorem GetClosestPointToSegment_degenerate:
  "is_finite (X2 a) \<Longrightarrow> is_finite (Y2 a) \<Longrightarrow> GetClosestPointToSegment p (a, a) = a"
proof -
  assume fx: "is_finite (X2 a)" and fy: "is_finite (Y2 a)"
  obtain x where x: "X2 a = Finite x" using fx by (cases "X2 a") simp_all
  obtain y where y: "Y2 a = Finite y" using fy by (cases "Y2 a") simp_all
  have n: "Vector2_Sub a a = \<lparr>X2 = Finite 0, Y2 = Finite 0\<rparr>"
    by (simp add: Vector2_Sub_def f64_sub_def x y)
  have l2: "Vector2_LengthSquared \<lparr>X2 = Finite 0, Y2 = Finite 0\<rparr> = Finite 0"
    by (simp add: Vector2_LengthSquared_def)
  show ?thesis
    by (simp add: GetClosestPointToSegment_def Let_def n l2 tiny_value_numeral)
qed

theorem GetClosestPointToSegment_degenerate_witness:
  "is_finite (Finite 3) \<and> is_finite (Finite 4) \<and>
   GetClosestPointToSegment \<lparr>X2 = NaN, Y2 = PInf\<rparr>
       (\<lparr>X2 = Finite 3, Y2 = Finite 4\<rparr>, \<lparr>X2 = Finite 3, Y2 = Finite 4\<rparr>) =
     \<lparr>X2 = Finite 3, Y2 = Finite 4\<rparr>"
  using GetClosestPointToSegment_degenerate [of "\<lparr>X2 = Finite 3, Y2 = Finite 4\<rparr>"
      "\<lparr>X2 = NaN, Y2 = PInf\<rparr>"]
  by simp

text \<open>
  C9 as claimed (every segment with equal endpoints) fails when a coordinate of the
  endpoint is infinite, as the components \<^verbatim>\<open>Div\<close> and \<^verbatim>\<open>Divf\<close> store are: the difference
  of the endpoints is then NaN, no comparison holds, and the result is a NaN vector.
\<close>

theorem GetClosestPointToSegment_infinite_counterexample:
  "GetClosestPointToSegment \<lparr>X2 = Finite 0, Y2 = Finite 0\<rparr>
       (\<lparr>X2 = PInf, Y2 = Finite 0\<rparr>, \<lparr>X2 = PInf, Y2 = Finite 0\<rparr>) =
     \<lparr>X2 = NaN, Y2 = NaN\<rparr>"
  by (simp add: GetClosestPointToSegment_def Let_def Vector2_Sub_def Vector2_LengthSquared_def
      Vector2_Dot_def Vector2_Add_def Vector2_Mulf_def f64_sub_def f64_ge_def tiny_value_numeral)

section \<open>Error analysis of Normalize followed by Length\<close>

text \<open>
  The bounds are coarse on purpose: the tolerance \<^verbatim>\<open>CMP_EPSILON\<close> is about \<open>2 powi -17\<close>, and the
  computed length is shown to be within \<open>2 powi -46\<close> of 1.
\<close>

lemma mnorm_pos: "0 < mnorm"
  by (simp add: mnorm_def)

lemma near_bound: "0 \<le> r \<Longrightarrow> near r v \<Longrightarrow> \<bar>v - r\<bar> \<le> u53 * (r + mnorm)"
proof -
  assume r: "0 \<le> r" and n: "near r v"
  have "max \<bar>r\<bar> mnorm \<le> r + mnorm" using r mnorm_pos by (simp add: max_def)
  then have "u53 * max \<bar>r\<bar> mnorm \<le> u53 * (r + mnorm)"
    by (intro mult_left_mono) (auto simp: u53_def)
  then show ?thesis using n unfolding near_def by linarith
qed

lemma near_small: "\<bar>r\<bar> \<le> c \<Longrightarrow> 1 \<le> c \<Longrightarrow> near r v \<Longrightarrow> \<bar>v - r\<bar> \<le> c * u53"
proof -
  assume r: "\<bar>r\<bar> \<le> c" and c: "1 \<le> c" and n: "near r v"
  have "max \<bar>r\<bar> mnorm \<le> c" using r c mnorm_le_1 by (simp add: max_def)
  then have "u53 * max \<bar>r\<bar> mnorm \<le> u53 * c"
    by (intro mult_left_mono) (auto simp: u53_def)
  then show ?thesis using n unfolding near_def by (simp add: mult.commute)
qed

lemma near_bounds:
  assumes "0 \<le> r" "near r v"
  shows "v \<le> r + u53 * (r + mnorm)" "r - u53 * (r + mnorm) \<le> v"
  using near_bound[OF assms] by (simp_all add: abs_le_iff) 

lemma sumsq2_rel:
  assumes "near xx a" "near yy b" "near (a + b) s"
    and "0 \<le> xx" "0 \<le> yy" "0 \<le> a" "0 \<le> b" "mnorm \<le> s"
  shows "(1 - 1 / 2 ^ 49) * (xx + yy) \<le> s \<and> s \<le> (1 + 1 / 2 ^ 49) * (xx + yy)"
proof -
  note 1 = near_bounds[OF \<open>0 \<le> xx\<close> \<open>near xx a\<close>]
  note 2 = near_bounds[OF \<open>0 \<le> yy\<close> \<open>near yy b\<close>]
  have ab: "0 \<le> a + b" using assms by simp
  note 3 = near_bounds[OF ab \<open>near (a + b) s\<close>]
  have lo: "(1 - 1 / 2 ^ 49) * (xx + yy) \<le> s"
    using 1 2 3 assms(4-8) mnorm_pos unfolding u53_def by (simp add: field_simps)
  have hi: "s \<le> (1 + 1 / 2 ^ 49) * (xx + yy)"
    using 1 2 3 assms(4-8) mnorm_pos unfolding u53_def by (simp add: field_simps)
  show ?thesis using lo hi by simp
qed


lemma sumsq3_rel:
  assumes "near xx a" "near yy b" "near zz c" "near (a + b) ab" "near (ab + c) s"
    and "0 \<le> xx" "0 \<le> yy" "0 \<le> zz" "0 \<le> a" "0 \<le> b" "0 \<le> c" "0 \<le> ab" "mnorm \<le> s"
  shows "(1 - 1 / 2 ^ 49) * (xx + yy + zz) \<le> s \<and> s \<le> (1 + 1 / 2 ^ 49) * (xx + yy + zz)"
proof -
  note 1 = near_bounds[OF \<open>0 \<le> xx\<close> \<open>near xx a\<close>]
  note 2 = near_bounds[OF \<open>0 \<le> yy\<close> \<open>near yy b\<close>]
  note 3 = near_bounds[OF \<open>0 \<le> zz\<close> \<open>near zz c\<close>]
  have ab: "0 \<le> a + b" using assms by simp
  note 4 = near_bounds[OF ab \<open>near (a + b) ab\<close>]
  have abc: "0 \<le> ab + c" using assms by simp
  note 5 = near_bounds[OF abc \<open>near (ab + c) s\<close>]
  have lo: "(1 - 1 / 2 ^ 49) * (xx + yy + zz) \<le> s"
    using 1 2 3 4 5 assms(6-13) mnorm_pos unfolding u53_def by (simp add: field_simps)
  have hi: "s \<le> (1 + 1 / 2 ^ 49) * (xx + yy + zz)"
    using 1 2 3 4 5 assms(6-13) mnorm_pos unfolding u53_def by (simp add: field_simps)
  show ?thesis using lo hi by simp
qed

text \<open>The square root of the computed squared length, and the quotients by it.\<close>

lemma sqrt_ge_mnorm: "mnorm \<le> s \<Longrightarrow> mnorm \<le> sqrt s"
proof -
  assume s: "mnorm \<le> s"
  have "mnorm * mnorm \<le> mnorm * 1" using mnorm_le_1 mnorm_pos by (intro mult_left_mono) auto
  then have "mnorm\<^sup>2 \<le> s" using s by (simp add: power2_eq_square)
  then show ?thesis by (rule real_le_rsqrt)
qed

lemma near_sqrt:
  assumes "mnorm \<le> s" "near (sqrt s) l"
  shows "(1 - u53) * sqrt s \<le> l \<and> l \<le> (1 + u53) * sqrt s"
proof -
  have g: "mnorm \<le> sqrt s" using assms(1) by (rule sqrt_ge_mnorm)
  then have "max \<bar>sqrt s\<bar> mnorm = sqrt s" using mnorm_pos by (auto simp: max_def)
  then have "\<bar>l - sqrt s\<bar> \<le> u53 * sqrt s" using assms(2) by (simp add: near_def)
  then show ?thesis by (simp add: abs_le_iff algebra_simps)
qed

lemma quotient_bounds:
  assumes s: "mnorm \<le> s" and l: "near (sqrt s) l"
    and t: "(1 - 1 / 2 ^ 49) * t \<le> s" "s \<le> (1 + 1 / 2 ^ 49) * t"
  shows "0 < l" "(1 - 1 / 2 ^ 47) * (l * l) \<le> t" "t \<le> (1 + 1 / 2 ^ 47) * (l * l)"
proof -
  define g where "g = sqrt s"
  have spos: "0 < s" using s mnorm_pos by linarith
  have gpos: "0 < g" using spos by (simp add: g_def)
  have gg: "g * g = s" using spos by (simp add: g_def)
  have lb: "(1 - u53) * g \<le> l" "l \<le> (1 + u53) * g"
    using near_sqrt[OF s l] by (simp_all add: g_def)
  have c1: "0 < (1 - u53) * g" using gpos by (simp add: u53_def)
  show lpos: "0 < l" using c1 lb(1) by linarith
  have "((1 - u53) * g) * ((1 - u53) * g) \<le> l * l"
    using c1 lb(1) by (intro mult_mono) auto
  then have lo: "(1 - u53) * (1 - u53) * s \<le> l * l"
    using gg by (simp add: algebra_simps)
  have "l * l \<le> ((1 + u53) * g) * ((1 + u53) * g)"
    using lpos lb(2) by (intro mult_mono) auto
  then have hi: "l * l \<le> (1 + u53) * (1 + u53) * s"
    using gg by (simp add: algebra_simps)
  show "(1 - 1 / 2 ^ 47) * (l * l) \<le> t"
    using hi t spos unfolding u53_def by (simp add: field_simps)
  show "t \<le> (1 + 1 / 2 ^ 47) * (l * l)"
    using lo t spos unfolding u53_def by (simp add: field_simps)
qed

lemma u53_facts: "0 < u53" "u53 \<le> 1 / 1000000" "128 * u53 = 1 / 2 ^ 46" "64 * u53 = 1 / 2 ^ 47"
  by (simp_all add: u53_def)

lemma comp_bound:
  fixes x l t :: real
  assumes "x * x \<le> t" "t \<le> (1 + 1 / 2 ^ 47) * (l * l)" "0 < l"
  shows "\<bar>x / l\<bar> \<le> 2"
proof -
  have "(1 + 1 / 2 ^ 47) * (l * l) \<le> 4 * (l * l)"
    by (intro mult_right_mono) auto
  then have "x * x \<le> 4 * (l * l)" using assms by linarith
  then have "x\<^sup>2 \<le> (2 * l)\<^sup>2" by (simp add: power2_eq_square)
  then have "\<bar>x\<bar> \<le> \<bar>2 * l\<bar>" by (simp only: abs_le_square_iff)
  then show ?thesis using assms(3) by (simp add: field_simps)
qed

lemma comp_sq:
  assumes p: "\<bar>p\<bar> \<le> 2" and x: "near p x'" and a: "near (x' * x') a'"
  shows "\<bar>a' - p * p\<bar> \<le> 19 * u53"
proof -
  have d: "\<bar>x' - p\<bar> \<le> 2 * u53" using p x by (intro near_small) auto
  have x3: "\<bar>x'\<bar> \<le> 3" using d p u53_facts(1,2) by linarith
  have "\<bar>x' * x'\<bar> \<le> 3 * 3" unfolding abs_mult using x3 by (intro mult_mono) auto
  then have e: "\<bar>a' - x' * x'\<bar> \<le> 9 * u53" using a by (intro near_small) auto
  have x5: "\<bar>x' + p\<bar> \<le> 5" using x3 p by linarith
  have "x' * x' - p * p = (x' - p) * (x' + p)" by (simp add: algebra_simps)
  then have "\<bar>x' * x' - p * p\<bar> = \<bar>x' - p\<bar> * \<bar>x' + p\<bar>" by (simp add: abs_mult)
  also have "\<dots> \<le> (2 * u53) * 5"
    using d x5 by (intro mult_mono) auto
  finally have "\<bar>x' * x' - p * p\<bar> \<le> 10 * u53" by simp
  then show ?thesis using e by linarith
qed

lemma unit_ratio:
  fixes l t :: real
  assumes "0 < l" "(1 - 1 / 2 ^ 47) * (l * l) \<le> t" "t \<le> (1 + 1 / 2 ^ 47) * (l * l)"
  shows "\<bar>t / (l * l) - 1\<bar> \<le> 64 * u53"
proof -
  have ll: "0 < l * l" using assms(1) by simp
  have lo: "1 - 1 / 2 ^ 47 \<le> t / (l * l)" using assms(2) ll by (simp only: pos_le_divide_eq)
  have hi: "t / (l * l) \<le> 1 + 1 / 2 ^ 47" using assms(3) ll by (simp only: pos_divide_le_eq)
  show ?thesis using lo hi unfolding u53_facts(4) by linarith
qed

lemma length_tail:
  assumes s: "\<bar>s' - 1\<bar> \<le> 1 / 2 ^ 46" and L: "near (sqrt s') L" and D: "near (L - 1) D"
  shows "\<bar>D\<bar> < 5902958103587057 / 2 ^ 69"
proof -
  have k: "(1::real) / 2 ^ 46 \<le> 1 / 1000000" by simp
  have s0: "0 \<le> s'" using s k by linarith
  define g where "g = sqrt s'"
  have g0: "0 \<le> g" using s0 by (simp add: g_def)
  have gg: "g * g = s'" using s0 by (simp add: g_def)
  have "(g - 1) * (g + 1) = s' - 1" using gg by (simp add: algebra_simps)
  then have "\<bar>g - 1\<bar> * \<bar>g + 1\<bar> = \<bar>s' - 1\<bar>" by (simp add: abs_mult[symmetric])
  moreover have "\<bar>g - 1\<bar> * 1 \<le> \<bar>g - 1\<bar> * \<bar>g + 1\<bar>"
    using g0 by (intro mult_left_mono) auto
  ultimately have g1: "\<bar>g - 1\<bar> \<le> 1 / 2 ^ 46" using s by simp
  then have "\<bar>g\<bar> \<le> 2" using k by linarith
  then have e1: "\<bar>L - g\<bar> \<le> 2 * u53" using L unfolding g_def by (intro near_small) auto
  have L1: "\<bar>L - 1\<bar> \<le> 1 / 2 ^ 46 + 2 * u53" using g1 e1 by linarith
  then have "\<bar>L - 1\<bar> \<le> 1" using k u53_facts(1,2) by linarith
  then have "\<bar>D - (L - 1)\<bar> \<le> 1 * u53" using D by (intro near_small) auto
  then have "\<bar>D\<bar> \<le> 1 / 2 ^ 46 + 3 * u53" using L1 by linarith
  moreover have "1 / 2 ^ 46 + 3 * u53 < 5902958103587057 / 2 ^ 69" by (simp add: u53_def)
  ultimately show ?thesis by linarith
qed

lemma sum2_unit:
  assumes l: "0 < l" "(1 - 1 / 2 ^ 47) * (l * l) \<le> x * x + y * y"
      "x * x + y * y \<le> (1 + 1 / 2 ^ 47) * (l * l)"
    and x: "near (x / l) x'" "near (x' * x') a'"
    and y: "near (y / l) y'" "near (y' * y') b'"
    and s: "near (a' + b') s'"
  shows "\<bar>s' - 1\<bar> \<le> 1 / 2 ^ 46"
proof -
  have px: "\<bar>x / l\<bar> \<le> 2" using l by (intro comp_bound[where t = "x * x + y * y"]) auto
  have py: "\<bar>y / l\<bar> \<le> 2" using l by (intro comp_bound[where t = "x * x + y * y"]) auto
  note ex = comp_sq[OF px x]
  note ey = comp_sq[OF py y]
  have r: "\<bar>(x * x + y * y) / (l * l) - 1\<bar> \<le> 64 * u53" using l by (rule unit_ratio)
  have split: "(x * x + y * y) / (l * l) = (x / l) * (x / l) + (y / l) * (y / l)"
    using l(1) by (simp add: field_simps)
  have S: "\<bar>(a' + b') - 1\<bar> \<le> 102 * u53" using ex ey r unfolding split by linarith
  then have "\<bar>a' + b'\<bar> \<le> 2" using u53_facts(1,2) by linarith
  then have "\<bar>s' - (a' + b')\<bar> \<le> 2 * u53" using s by (intro near_small) auto
  then have "\<bar>s' - 1\<bar> \<le> 104 * u53" using S by linarith
  then show ?thesis using u53_facts(1,3) by linarith
qed

lemma sum3_unit:
  assumes l: "0 < l" "(1 - 1 / 2 ^ 47) * (l * l) \<le> x * x + y * y + z * z"
      "x * x + y * y + z * z \<le> (1 + 1 / 2 ^ 47) * (l * l)"
    and x: "near (x / l) x'" "near (x' * x') a'"
    and y: "near (y / l) y'" "near (y' * y') b'"
    and z: "near (z / l) z'" "near (z' * z') c'"
    and ab: "near (a' + b') ab'"
    and s: "near (ab' + c') s'"
  shows "\<bar>s' - 1\<bar> \<le> 1 / 2 ^ 46"
proof -
  have px: "\<bar>x / l\<bar> \<le> 2" using l by (intro comp_bound[where t = "x * x + y * y + z * z"]) auto
  have py: "\<bar>y / l\<bar> \<le> 2" using l by (intro comp_bound[where t = "x * x + y * y + z * z"]) auto
  have pz: "\<bar>z / l\<bar> \<le> 2" using l by (intro comp_bound[where t = "x * x + y * y + z * z"]) auto
  note ex = comp_sq[OF px x]
  note ey = comp_sq[OF py y]
  note ez = comp_sq[OF pz z]
  have r: "\<bar>(x * x + y * y + z * z) / (l * l) - 1\<bar> \<le> 64 * u53" using l by (rule unit_ratio)
  have split: "(x * x + y * y + z * z) / (l * l)
      = (x / l) * (x / l) + (y / l) * (y / l) + (z / l) * (z / l)"
    using l(1) by (simp add: field_simps)
  have sq: "0 \<le> (x / l) * (x / l)" "0 \<le> (y / l) * (y / l)" "0 \<le> (z / l) * (z / l)"
    by simp_all
  have "\<bar>a' + b'\<bar> \<le> 3" using ex ey r sq u53_facts(1,2) unfolding split by linarith
  then have eab: "\<bar>ab' - (a' + b')\<bar> \<le> 3 * u53" using ab by (intro near_small) auto
  have S: "\<bar>(ab' + c') - 1\<bar> \<le> 124 * u53" using ex ey ez eab r unfolding split by linarith
  then have "\<bar>ab' + c'\<bar> \<le> 2" using u53_facts(1,2) by linarith
  then have "\<bar>s' - (ab' + c')\<bar> \<le> 2 * u53" using s by (intro near_small) auto
  then have "\<bar>s' - 1\<bar> \<le> 126 * u53" using S by linarith
  then show ?thesis using u53_facts(1,3) by linarith
qed

lemma f64_add_Finite:
  "f64_add p q = Finite s \<Longrightarrow> \<exists>a b. p = Finite a \<and> q = Finite b \<and> rnd (a + b) = Finite s"
  by (cases p; cases q) simp_all

lemma f64_mul_Finite:
  "f64_mul p q = Finite s \<Longrightarrow> \<exists>a b. p = Finite a \<and> q = Finite b \<and> rnd (a * b) = Finite s"
  by (cases p; cases q) (simp_all split: if_splits)

lemma rnd_small: "\<bar>r\<bar> \<le> 9 \<Longrightarrow> \<exists>v. rnd r = Finite v \<and> near r v"
proof -
  assume r: "\<bar>r\<bar> \<le> 9"
  have "(2::real) ^ 4 \<le> 2 ^ 1023" by (intro power_increasing) auto
  then have "\<bar>r\<bar> \<le> 2 ^ 1023" using r by simp
  then obtain v where "rnd r = Finite v" using rnd_finite by blast
  then show ?thesis using rnd_near by blast
qed

lemma rnd_sqrt:
  assumes "0 \<le> s" "s < 2 ^ 1024"
  shows "\<exists>l. rnd (sqrt s) = Finite l \<and> near (sqrt s) l"
proof -
  have "((2::real) ^ 512)\<^sup>2 = 2 ^ (512 * 2)" by (rule power_mult[symmetric])
  then have sq: "((2::real) ^ 512)\<^sup>2 = 2 ^ 1024" by simp
  have "sqrt s \<le> 2 ^ 512"
    using assms unfolding sq[symmetric] by (intro real_le_lsqrt) auto
  moreover have "(2::real) ^ 512 \<le> 2 ^ 1023" by (intro power_increasing) auto
  moreover have "0 \<le> sqrt s" using assms(1) by simp
  ultimately have "\<bar>sqrt s\<bar> \<le> 2 ^ 1023" by linarith
  then obtain l where "rnd (sqrt s) = Finite l" using rnd_finite by blast
  then show ?thesis using rnd_near by blast
qed

lemma near_sq_small:
  assumes p: "\<bar>p\<bar> \<le> 2" and x: "near p x'"
  shows "\<bar>x' * x'\<bar> \<le> 9"
proof -
  have d: "\<bar>x' - p\<bar> \<le> 2 * u53" using p x by (intro near_small) auto
  have x3: "\<bar>x'\<bar> \<le> 3" using d p u53_facts(1,2) by linarith
  have "\<bar>x' * x'\<bar> \<le> 3 * 3" unfolding abs_mult using x3 by (intro mult_mono) auto
  then show ?thesis by simp
qed

lemma Vector2_normalized_length:
  assumes l2: "Vector2_LengthSquared v = Finite s" and big: "2 powi (- 1022) \<le> s"
  shows "IsEqualApprox (Vector2_Length (Vector2_Normalized v)) (Finite 1)"
proof -
  have m: "mnorm \<le> s" using big by (simp add: mnorm_def)
  have spos: "0 < s" using m mnorm_pos by linarith
  from l2 obtain a b where ab: "f64_mul (X2 v) (X2 v) = Finite a"
      "f64_mul (Y2 v) (Y2 v) = Finite b" "rnd (a + b) = Finite s"
    unfolding Vector2_LengthSquared_def using f64_add_Finite by blast
  from ab(1) obtain x where x: "X2 v = Finite x" "rnd (x * x) = Finite a"
    using f64_mul_Finite by fastforce
  from ab(2) obtain y where y: "Y2 v = Finite y" "rnd (y * y) = Finite b"
    using f64_mul_Finite by fastforce
  have a0: "0 \<le> a" using rnd_nonneg[OF x(2)] by simp
  have b0: "0 \<le> b" using rnd_nonneg[OF y(2)] by simp
  have rel: "(1 - 1 / 2 ^ 49) * (x * x + y * y) \<le> s \<and> s \<le> (1 + 1 / 2 ^ 49) * (x * x + y * y)"
    using sumsq2_rel[OF rnd_near[OF x(2)] rnd_near[OF y(2)] rnd_near[OF ab(3)] _ _ a0 b0 m]
    by simp
  have "s < 2 ^ 1024" using rnd_Finite_less[OF ab(3)] by simp
  then obtain l where l: "rnd (sqrt s) = Finite l" "near (sqrt s) l"
    using rnd_sqrt[of s] spos by auto
  have lpos: "0 < l" and tl: "(1 - 1 / 2 ^ 47) * (l * l) \<le> x * x + y * y"
      "x * x + y * y \<le> (1 + 1 / 2 ^ 47) * (l * l)"
    using quotient_bounds[OF m l(2), of "x * x + y * y"] rel by auto
  have px: "\<bar>x / l\<bar> \<le> 2" using tl lpos by (intro comp_bound[where t = "x * x + y * y"]) auto
  have py: "\<bar>y / l\<bar> \<le> 2" using tl lpos by (intro comp_bound[where t = "x * x + y * y"]) auto
  obtain x' where x': "rnd (x / l) = Finite x'" "near (x / l) x'"
    using rnd_small[of "x / l"] px by auto
  obtain y' where y': "rnd (y / l) = Finite y'" "near (y / l) y'"
    using rnd_small[of "y / l"] py by auto
  obtain a' where a': "rnd (x' * x') = Finite a'" "near (x' * x') a'"
    using rnd_small[of "x' * x'"] near_sq_small[OF px x'(2)] by auto
  obtain b' where b': "rnd (y' * y') = Finite b'" "near (y' * y') b'"
    using rnd_small[of "y' * y'"] near_sq_small[OF py y'(2)] by auto
  have ea: "\<bar>a' - x / l * (x / l)\<bar> \<le> 19 * u53" using comp_sq[OF px x'(2) a'(2)] .
  have eb: "\<bar>b' - y / l * (y / l)\<bar> \<le> 19 * u53" using comp_sq[OF py y'(2) b'(2)] .
  have "\<bar>x / l * (x / l)\<bar> \<le> 2 * 2" unfolding abs_mult using px by (intro mult_mono) auto
  moreover have "\<bar>y / l * (y / l)\<bar> \<le> 2 * 2" unfolding abs_mult using py by (intro mult_mono) auto
  ultimately have "\<bar>a' + b'\<bar> \<le> 9" using ea eb u53_facts(1,2) by linarith
  then obtain s' where s': "rnd (a' + b') = Finite s'" "near (a' + b') s'"
    using rnd_small[of "a' + b'"] by auto
  have unit: "\<bar>s' - 1\<bar> \<le> 1 / 2 ^ 46"
    using lpos tl x'(2) a'(2) y'(2) b'(2) s'(2) by (rule sum2_unit)
  have k: "(1::real) / 2 ^ 46 \<le> 1 / 1000000" by simp
  have s'0: "0 \<le> s'" and s'2: "s' \<le> 2" using unit k by linarith+
  have "(2::real) ^ 1 < 2 ^ 1024" by (intro power_strict_increasing) auto
  then have s'b: "s' < 2 ^ 1024" using s'2 by simp
  obtain L where L: "rnd (sqrt s') = Finite L" "near (sqrt s') L"
    using rnd_sqrt[OF s'0 s'b] by auto
  have "0 \<le> sqrt s'" "sqrt s' \<le> 2" using s'0 s'2
    by (simp_all add: real_le_lsqrt)
  then have "\<bar>L - sqrt s'\<bar> \<le> 2 * u53" using L(2) by (intro near_small) auto
  then have "\<bar>L - 1\<bar> \<le> 9" using \<open>0 \<le> sqrt s'\<close> \<open>sqrt s' \<le> 2\<close> u53_facts(1,2) by linarith
  then obtain D where D: "rnd (L - 1) = Finite D" "near (L - 1) D"
    using rnd_small[of "L - 1"] by auto
  have fin: "\<bar>D\<bar> < 5902958103587057 / 2 ^ 69" using unit L(2) D(2) by (rule length_tail)
  have norm: "Vector2_Normalized v = \<lparr>X2 = Finite x', Y2 = Finite y'\<rparr>"
    using spos lpos x y ab l x' y'
    by (simp add: Vector2_Normalized_def Vector2_Normalize_def Let_def f64_ne_def)
  have len: "Vector2_Length \<lparr>X2 = Finite x', Y2 = Finite y'\<rparr> = Finite L"
    using a' b' s' s'0 L by (simp add: Vector2_Length_def)
  show ?thesis
    using D fin unfolding norm len
    by (simp add: IsEqualApprox_def IsZeroApprox_def f64_sub_def CMP_EPSILON_value)
qed

lemma sq_le_4: "\<bar>p\<bar> \<le> 2 \<Longrightarrow> \<bar>p * p\<bar> \<le> (4::real)"
proof -
  assume "\<bar>p\<bar> \<le> 2"
  then have "\<bar>p\<bar> * \<bar>p\<bar> \<le> 2 * 2" by (intro mult_mono) auto
  then show ?thesis by (simp add: abs_mult)
qed

lemma Vector3_normalized_length:
  assumes l2: "Vector3_LengthSquared v = Finite s" and big: "2 powi (- 1022) \<le> s"
  shows "IsEqualApprox (Vector3_Length (Vector3_Normalized v)) (Finite 1)"
proof -
  have m: "mnorm \<le> s" using big by (simp add: mnorm_def)
  have spos: "0 < s" using m mnorm_pos by linarith
  from l2 obtain ab c where abc: "f64_add (f64_mul (X3 v) (X3 v)) (f64_mul (Y3 v) (Y3 v)) = Finite ab"
      "f64_mul (Z3 v) (Z3 v) = Finite c" "rnd (ab + c) = Finite s"
    unfolding Vector3_LengthSquared_def Let_def using f64_add_Finite by blast
  from abc(1) obtain a b where ab: "f64_mul (X3 v) (X3 v) = Finite a"
      "f64_mul (Y3 v) (Y3 v) = Finite b" "rnd (a + b) = Finite ab"
    using f64_add_Finite by blast
  from ab(1) obtain x where x: "X3 v = Finite x" "rnd (x * x) = Finite a"
    using f64_mul_Finite by fastforce
  from ab(2) obtain y where y: "Y3 v = Finite y" "rnd (y * y) = Finite b"
    using f64_mul_Finite by fastforce
  from abc(2) obtain z where z: "Z3 v = Finite z" "rnd (z * z) = Finite c"
    using f64_mul_Finite by fastforce
  have a0: "0 \<le> a" using rnd_nonneg[OF x(2)] by simp
  have b0: "0 \<le> b" using rnd_nonneg[OF y(2)] by simp
  have c0: "0 \<le> c" using rnd_nonneg[OF z(2)] by simp
  have ab0: "0 \<le> ab" using rnd_nonneg[OF ab(3)] a0 b0 by simp
  have rel: "(1 - 1 / 2 ^ 49) * (x * x + y * y + z * z) \<le> s \<and>
      s \<le> (1 + 1 / 2 ^ 49) * (x * x + y * y + z * z)"
    using sumsq3_rel[OF rnd_near[OF x(2)] rnd_near[OF y(2)] rnd_near[OF z(2)]
        rnd_near[OF ab(3)] rnd_near[OF abc(3)] _ _ _ a0 b0 c0 ab0 m]
    by simp
  have "s < 2 ^ 1024" using rnd_Finite_less[OF abc(3)] by simp
  then obtain l where l: "rnd (sqrt s) = Finite l" "near (sqrt s) l"
    using rnd_sqrt[of s] spos by auto
  have lpos: "0 < l" and tl: "(1 - 1 / 2 ^ 47) * (l * l) \<le> x * x + y * y + z * z"
      "x * x + y * y + z * z \<le> (1 + 1 / 2 ^ 47) * (l * l)"
    using quotient_bounds[OF m l(2), of "x * x + y * y + z * z"] rel by auto
  have px: "\<bar>x / l\<bar> \<le> 2"
    using tl lpos by (intro comp_bound[where t = "x * x + y * y + z * z"]) auto
  have py: "\<bar>y / l\<bar> \<le> 2"
    using tl lpos by (intro comp_bound[where t = "x * x + y * y + z * z"]) auto
  have pz: "\<bar>z / l\<bar> \<le> 2"
    using tl lpos by (intro comp_bound[where t = "x * x + y * y + z * z"]) auto
  obtain x' where x': "rnd (x / l) = Finite x'" "near (x / l) x'"
    using rnd_small[of "x / l"] px by auto
  obtain y' where y': "rnd (y / l) = Finite y'" "near (y / l) y'"
    using rnd_small[of "y / l"] py by auto
  obtain z' where z': "rnd (z / l) = Finite z'" "near (z / l) z'"
    using rnd_small[of "z / l"] pz by auto
  obtain a' where a': "rnd (x' * x') = Finite a'" "near (x' * x') a'"
    using rnd_small[of "x' * x'"] near_sq_small[OF px x'(2)] by auto
  obtain b' where b': "rnd (y' * y') = Finite b'" "near (y' * y') b'"
    using rnd_small[of "y' * y'"] near_sq_small[OF py y'(2)] by auto
  obtain c' where c': "rnd (z' * z') = Finite c'" "near (z' * z') c'"
    using rnd_small[of "z' * z'"] near_sq_small[OF pz z'(2)] by auto
  have ea: "\<bar>a' - x / l * (x / l)\<bar> \<le> 19 * u53" using comp_sq[OF px x'(2) a'(2)] .
  have eb: "\<bar>b' - y / l * (y / l)\<bar> \<le> 19 * u53" using comp_sq[OF py y'(2) b'(2)] .
  have ec: "\<bar>c' - z / l * (z / l)\<bar> \<le> 19 * u53" using comp_sq[OF pz z'(2) c'(2)] .
  have "\<bar>a' + b'\<bar> \<le> 9" using ea eb sq_le_4[OF px] sq_le_4[OF py] u53_facts(1,2) by linarith
  then obtain ab' where ab': "rnd (a' + b') = Finite ab'" "near (a' + b') ab'"
    using rnd_small[of "a' + b'"] by auto
  have unit: "\<And>s'. near (ab' + c') s' \<Longrightarrow> \<bar>s' - 1\<bar> \<le> 1 / 2 ^ 46"
    using lpos tl x'(2) a'(2) y'(2) b'(2) z'(2) c'(2) ab'(2) by (rule sum3_unit)
  have r: "\<bar>(x * x + y * y + z * z) / (l * l) - 1\<bar> \<le> 64 * u53"
    using lpos tl by (rule unit_ratio)
  have split: "(x * x + y * y + z * z) / (l * l)
      = (x / l) * (x / l) + (y / l) * (y / l) + (z / l) * (z / l)"
    using lpos by (simp add: field_simps)
  have sq: "0 \<le> (x / l) * (x / l)" "0 \<le> (y / l) * (y / l)" "0 \<le> (z / l) * (z / l)"
    by simp_all
  have "\<bar>a' + b'\<bar> \<le> 3" using ea eb r sq u53_facts(1,2) unfolding split by linarith
  then have "\<bar>ab' - (a' + b')\<bar> \<le> 3 * u53" using ab'(2) by (intro near_small) auto
  then have "\<bar>ab' + c'\<bar> \<le> 9" using ea eb ec r sq u53_facts(1,2) unfolding split by linarith
  then obtain s' where s': "rnd (ab' + c') = Finite s'" "near (ab' + c') s'"
    using rnd_small[of "ab' + c'"] by auto
  note unit = unit[OF s'(2)]
  have k: "(1::real) / 2 ^ 46 \<le> 1 / 1000000" by simp
  have s'0: "0 \<le> s'" and s'2: "s' \<le> 2" using unit k by linarith+
  have "(2::real) ^ 1 < 2 ^ 1024" by (intro power_strict_increasing) auto
  then have s'b: "s' < 2 ^ 1024" using s'2 by simp
  obtain L where L: "rnd (sqrt s') = Finite L" "near (sqrt s') L"
    using rnd_sqrt[OF s'0 s'b] by auto
  have "0 \<le> sqrt s'" "sqrt s' \<le> 2" using s'0 s'2
    by (simp_all add: real_le_lsqrt)
  then have "\<bar>L - sqrt s'\<bar> \<le> 2 * u53" using L(2) by (intro near_small) auto
  then have "\<bar>L - 1\<bar> \<le> 9" using \<open>0 \<le> sqrt s'\<close> \<open>sqrt s' \<le> 2\<close> u53_facts(1,2) by linarith
  then obtain D where D: "rnd (L - 1) = Finite D" "near (L - 1) D"
    using rnd_small[of "L - 1"] by auto
  have fin: "\<bar>D\<bar> < 5902958103587057 / 2 ^ 69" using unit L(2) D(2) by (rule length_tail)
  have lsq: "Vector3_LengthSquared v = Finite s" by (rule l2)
  have norm: "Vector3_Normalized v = \<lparr>X3 = Finite x', Y3 = Finite y', Z3 = Finite z'\<rparr>"
    using spos lpos x(1) y(1) z(1) l x' y' z'
    by (simp add: Vector3_Normalized_def Vector3_Normalize_def Let_def lsq)
  have len: "Vector3_Length \<lparr>X3 = Finite x', Y3 = Finite y', Z3 = Finite z'\<rparr> = Finite L"
    using a' b' c' ab' s' s'0 L by (simp add: Vector3_Length_def)
  show ?thesis
    using D fin unfolding norm len
    by (simp add: IsEqualApprox_def IsZeroApprox_def f64_sub_def CMP_EPSILON_value)
qed

section \<open>The length of a normalized vector\<close>

text \<open>
  C8, as the code has it. For every \<^verbatim>\<open>Vector2\<close> or \<^verbatim>\<open>Vector3\<close> \<open>v\<close> whose squared length,
  as \<^verbatim>\<open>Normalize\<close> computes it in binary64, is finite and at least \<open>2 powi -1022\<close> (the
  smallest normal number), \<^verbatim>\<open>v.Normalized().Length()\<close> is approximately 1:
  \<^verbatim>\<open>IsEqualApprox\<close> holds of it and 1. Normalizing the zero vector yields the zero vector.
\<close>

theorem Normalized_length:
  "(is_finite (Vector2_LengthSquared v) \<and>
      f64_le (Finite (2 powi (- 1022))) (Vector2_LengthSquared v) \<longrightarrow>
      IsEqualApprox (Vector2_Length (Vector2_Normalized v)) (Finite 1)) \<and>
   (is_finite (Vector3_LengthSquared w) \<and>
      f64_le (Finite (2 powi (- 1022))) (Vector3_LengthSquared w) \<longrightarrow>
      IsEqualApprox (Vector3_Length (Vector3_Normalized w)) (Finite 1)) \<and>
   Vector2_Normalized \<lparr>X2 = Finite 0, Y2 = Finite 0\<rparr> = \<lparr>X2 = Finite 0, Y2 = Finite 0\<rparr> \<and>
   Vector3_Normalized \<lparr>X3 = Finite 0, Y3 = Finite 0, Z3 = Finite 0\<rparr> =
     \<lparr>X3 = Finite 0, Y3 = Finite 0, Z3 = Finite 0\<rparr>"
proof (intro conjI impI)
  assume "is_finite (Vector2_LengthSquared v) \<and>
      f64_le (Finite (2 powi (- 1022))) (Vector2_LengthSquared v)"
  then obtain s where "Vector2_LengthSquared v = Finite s" "2 powi (- 1022) \<le> s"
    by (cases "Vector2_LengthSquared v") auto
  then show "IsEqualApprox (Vector2_Length (Vector2_Normalized v)) (Finite 1)"
    by (rule Vector2_normalized_length)
next
  assume "is_finite (Vector3_LengthSquared w) \<and>
      f64_le (Finite (2 powi (- 1022))) (Vector3_LengthSquared w)"
  then obtain s where "Vector3_LengthSquared w = Finite s" "2 powi (- 1022) \<le> s"
    by (cases "Vector3_LengthSquared w") auto
  then show "IsEqualApprox (Vector3_Length (Vector3_Normalized w)) (Finite 1)"
    by (rule Vector3_normalized_length)
next
  show "Vector2_Normalized \<lparr>X2 = Finite 0, Y2 = Finite 0\<rparr> = \<lparr>X2 = Finite 0, Y2 = Finite 0\<rparr>"
    by (simp add: Vector2_Normalized_def Vector2_Normalize_def Let_def f64_ne_def)
next
  show "Vector3_Normalized \<lparr>X3 = Finite 0, Y3 = Finite 0, Z3 = Finite 0\<rparr> =
     \<lparr>X3 = Finite 0, Y3 = Finite 0, Z3 = Finite 0\<rparr>"
    by (simp add: Vector3_Normalized_def Vector3_Normalize_def Vector3_LengthSquared_def
        Vector3_set_def Let_def)
qed

lemma LengthSquared_3_4:
  "Vector2_LengthSquared \<lparr>X2 = Finite 3, Y2 = Finite 4\<rparr> = Finite 25"
  by (simp add: Vector2_LengthSquared_def rnd_eval)

lemma LengthSquared_1_2_2:
  "Vector3_LengthSquared \<lparr>X3 = Finite 1, Y3 = Finite 2, Z3 = Finite 2\<rparr> = Finite 9"
  by (simp add: Vector3_LengthSquared_def rnd_eval)

lemma smallest_normal_le: "(2::real) powi (- 1022) \<le> 9" "(2::real) powi (- 1022) \<le> 25"
  by (simp_all add: power_int_minus_divide)

theorem Normalized_length_witness:
  "is_finite (Vector2_LengthSquared \<lparr>X2 = Finite 3, Y2 = Finite 4\<rparr>) \<and>
   f64_le (Finite (2 powi (- 1022))) (Vector2_LengthSquared \<lparr>X2 = Finite 3, Y2 = Finite 4\<rparr>) \<and>
   IsEqualApprox (Vector2_Length (Vector2_Normalized \<lparr>X2 = Finite 3, Y2 = Finite 4\<rparr>)) (Finite 1) \<and>
   is_finite (Vector3_LengthSquared \<lparr>X3 = Finite 1, Y3 = Finite 2, Z3 = Finite 2\<rparr>) \<and>
   f64_le (Finite (2 powi (- 1022)))
     (Vector3_LengthSquared \<lparr>X3 = Finite 1, Y3 = Finite 2, Z3 = Finite 2\<rparr>) \<and>
   IsEqualApprox
     (Vector3_Length (Vector3_Normalized \<lparr>X3 = Finite 1, Y3 = Finite 2, Z3 = Finite 2\<rparr>))
     (Finite 1)"
  using Normalized_length [of "\<lparr>X2 = Finite 3, Y2 = Finite 4\<rparr>"
      "\<lparr>X3 = Finite 1, Y3 = Finite 2, Z3 = Finite 2\<rparr>"]
  by (simp add: LengthSquared_3_4 LengthSquared_1_2_2 smallest_normal_le)

text \<open>
  C8 as claimed (every vector that is not the zero vector) fails where the squares
  underflow or overflow. The squared length of \<open>(2 powi -600, 0)\<close> is computed as 0:
  \<^verbatim>\<open>Vector2.Normalize\<close> leaves the vector as it is, \<^verbatim>\<open>Vector3.Normalize\<close> sets it to zero,
  and the length of the result is computed as 0. The squared length of \<open>(2 ^ 600, 0)\<close>
  is computed as infinity, and the vector is normalized to (0, 0).
\<close>

theorem Normalized_underflow_counterexample:
  "f64_ne (X2 \<lparr>X2 = Finite (1 / 2 ^ 600), Y2 = Finite 0\<rparr>) (Finite 0) \<and>
   Vector2_Normalized \<lparr>X2 = Finite (1 / 2 ^ 600), Y2 = Finite 0\<rparr> =
     \<lparr>X2 = Finite (1 / 2 ^ 600), Y2 = Finite 0\<rparr> \<and>
   Vector2_Length (Vector2_Normalized \<lparr>X2 = Finite (1 / 2 ^ 600), Y2 = Finite 0\<rparr>) = Finite 0 \<and>
   Vector3_Normalized \<lparr>X3 = Finite (1 / 2 ^ 600), Y3 = Finite 0, Z3 = Finite 0\<rparr> =
     \<lparr>X3 = Finite 0, Y3 = Finite 0, Z3 = Finite 0\<rparr> \<and>
   Vector3_Length (Vector3_Normalized \<lparr>X3 = Finite (1 / 2 ^ 600), Y3 = Finite 0, Z3 = Finite 0\<rparr>)
     = Finite 0 \<and>
   Vector2_Normalized \<lparr>X2 = Finite (2 ^ 600), Y2 = Finite 0\<rparr> =
     \<lparr>X2 = Finite 0, Y2 = Finite 0\<rparr> \<and>
   \<not> IsEqualApprox (Finite 0) (Finite 1)"
proof -
  have n2: "Vector2_Normalized \<lparr>X2 = Finite (1 / 2 ^ 600), Y2 = Finite 0\<rparr> =
     \<lparr>X2 = Finite (1 / 2 ^ 600), Y2 = Finite 0\<rparr>"
    by (simp add: Vector2_Normalized_def Vector2_Normalize_def f64_ne_def rnd_eval)
  have l2: "Vector2_Length \<lparr>X2 = Finite (1 / 2 ^ 600), Y2 = Finite 0\<rparr> = Finite 0"
    by (simp add: Vector2_Length_def rnd_eval)
  have n3: "Vector3_Normalized \<lparr>X3 = Finite (1 / 2 ^ 600), Y3 = Finite 0, Z3 = Finite 0\<rparr> =
     \<lparr>X3 = Finite 0, Y3 = Finite 0, Z3 = Finite 0\<rparr>"
    by (simp add: Vector3_Normalized_def Vector3_Normalize_def Vector3_LengthSquared_def
        Vector3_set_def rnd_eval)
  have l3: "Vector3_Length \<lparr>X3 = Finite 0, Y3 = Finite 0, Z3 = Finite 0\<rparr> = Finite 0"
    by (simp add: Vector3_Length_def)
  have nb: "Vector2_Normalized \<lparr>X2 = Finite (2 ^ 600), Y2 = Finite 0\<rparr> =
     \<lparr>X2 = Finite 0, Y2 = Finite 0\<rparr>"
    by (simp add: Vector2_Normalized_def Vector2_Normalize_def f64_ne_def rnd_eval)
  have ne: "\<not> IsEqualApprox (Finite 0) (Finite 1)"
    by (simp add: IsEqualApprox_def IsZeroApprox_def f64_sub_def CMP_EPSILON_value rnd_eval)
  show ?thesis unfolding n2 l2 n3 l3 nb using ne by (simp add: f64_ne_def)
qed

end
